theory Spec2Isabelle
  imports Complex_Main
begin

section \<open>Tensor entries\<close>

text \<open>
  An entry of a float tensor is a finite number, one of the two infinities, or NaN.
  Finite arithmetic is exact (rounding is not modelled) and a zero divisor stands for
  \<open>+0.0\<close>; the special values follow IEEE 754, which is what decides the behaviour of
  \<open>ChebConvAttention.__norm__\<close> when \<open>lambda_max\<close> is zero.
\<close>

datatype fval = Fin real | PInf | NInf | NaN

fun fadd :: "fval \<Rightarrow> fval \<Rightarrow> fval" where
  "fadd (Fin a) (Fin b) = Fin (a + b)"
| "fadd NaN _ = NaN"
| "fadd _ NaN = NaN"
| "fadd PInf NInf = NaN"
| "fadd NInf PInf = NaN"
| "fadd PInf _ = PInf"
| "fadd _ PInf = PInf"
| "fadd NInf _ = NInf"
| "fadd _ NInf = NInf"

fun fneg :: "fval \<Rightarrow> fval" where
  "fneg (Fin a) = Fin (- a)"
| "fneg PInf = NInf"
| "fneg NInf = PInf"
| "fneg NaN = NaN"

fun fmul :: "fval \<Rightarrow> fval \<Rightarrow> fval" where
  "fmul (Fin a) (Fin b) = Fin (a * b)"
| "fmul NaN _ = NaN"
| "fmul _ NaN = NaN"
| "fmul PInf (Fin b) = (if 0 < b then PInf else if b < 0 then NInf else NaN)"
| "fmul NInf (Fin b) = (if 0 < b then NInf else if b < 0 then PInf else NaN)"
| "fmul (Fin a) PInf = (if 0 < a then PInf else if a < 0 then NInf else NaN)"
| "fmul (Fin a) NInf = (if 0 < a then NInf else if a < 0 then PInf else NaN)"
| "fmul PInf PInf = PInf"
| "fmul PInf NInf = NInf"
| "fmul NInf PInf = NInf"
| "fmul NInf NInf = PInf"

fun fdiv :: "fval \<Rightarrow> fval \<Rightarrow> fval" where
  "fdiv (Fin a) (Fin b) =
     (if b \<noteq> 0 then Fin (a / b)
      else if 0 < a then PInf else if a < 0 then NInf else NaN)"
| "fdiv NaN _ = NaN"
| "fdiv _ NaN = NaN"
| "fdiv (Fin a) PInf = Fin 0"
| "fdiv (Fin a) NInf = Fin 0"
| "fdiv PInf (Fin b) = (if 0 \<le> b then PInf else NInf)"
| "fdiv NInf (Fin b) = (if 0 \<le> b then NInf else PInf)"
| "fdiv PInf PInf = NaN"
| "fdiv PInf NInf = NaN"
| "fdiv NInf PInf = NaN"
| "fdiv NInf NInf = NaN"

instantiation fval :: "{zero, one, plus, minus, uminus, times, inverse}"
begin

definition zero_fval :: fval where
  "zero_fval = Fin 0"

definition one_fval :: fval where
  "one_fval = Fin 1"

definition plus_fval :: "fval \<Rightarrow> fval \<Rightarrow> fval" where
  "plus_fval a b = fadd a b"

definition uminus_fval :: "fval \<Rightarrow> fval" where
  "uminus_fval a = fneg a"

definition minus_fval :: "fval \<Rightarrow> fval \<Rightarrow> fval" where
  "minus_fval a b = fadd a (fneg b)"

definition times_fval :: "fval \<Rightarrow> fval \<Rightarrow> fval" where
  "times_fval a b = fmul a b"

definition divide_fval :: "fval \<Rightarrow> fval \<Rightarrow> fval" where
  "divide_fval a b = fdiv a b"

definition inverse_fval :: "fval \<Rightarrow> fval" where
  "inverse_fval a = fdiv (Fin 1) a"

instance ..

end

instantiation fval :: comm_monoid_add
begin

instance
proof
  fix a b c :: fval
  show "a + b + c = a + (b + c)"
    by (cases a; cases b; cases c) (simp_all add: plus_fval_def)
  show "a + b = b + a"
    by (cases a; cases b) (simp_all add: plus_fval_def)
  show "0 + a = a"
    by (cases a) (simp_all add: plus_fval_def zero_fval_def)
qed

end

text \<open>\<open>Tensor.pow(-0.5)\<close> on one entry, and the test \<open>t == float('inf')\<close>.\<close>

fun pow_neg_half :: "fval \<Rightarrow> fval" where
  "pow_neg_half (Fin d) = (if 0 < d then Fin (1 / sqrt d) else if d = 0 then PInf else NaN)"
| "pow_neg_half PInf = Fin 0"
| "pow_neg_half NInf = Fin 0"
| "pow_neg_half NaN = NaN"

fun is_inf :: "fval \<Rightarrow> bool" where
  "is_inf PInf = True"
| "is_inf _ = False"

fun finite_fval :: "fval \<Rightarrow> bool" where
  "finite_fval (Fin a) = True"
| "finite_fval _ = False"

text \<open>\<open>Tensor.masked_fill_(t == float('inf'), 0)\<close>, as the value the tensor holds afterwards.\<close>

definition masked_fill_inf :: "fval list \<Rightarrow> fval list" where
  "masked_fill_inf t = map (\<lambda>v. if is_inf v then 0 else v) t"

section \<open>Tensors, edge lists and errors\<close>

type_synonym tensor1 = "fval list"
type_synonym tensor2 = "fval list list"
type_synonym tensor3 = "fval list list list"

text \<open>
  An edge index tensor of shape \<open>[2, E]\<close> is the list of its columns \<open>(row e, col e)\<close>.
\<close>

type_synonym edge_index = "(nat \<times> nat) list"

datatype error = ValueError | IndexError | RuntimeError | AssertionError

definition bindE :: "error + 'a \<Rightarrow> ('a \<Rightarrow> error + 'b) \<Rightarrow> error + 'b" where
  "bindE m f = (case m of Inl e \<Rightarrow> Inl e | Inr v \<Rightarrow> f v)"

text \<open>Extents of the node axis and the last axis, read off the nested lists.\<close>

definition size_node :: "'a list list \<Rightarrow> nat" where
  "size_node x = (case x of [] \<Rightarrow> 0 | m # _ \<Rightarrow> length m)"

definition size_last :: "'a list list list \<Rightarrow> nat" where
  "size_last x = (case x of [] \<Rightarrow> 0 | m # _ \<Rightarrow> size_node m)"

section \<open>Dense tensor operations\<close>

text \<open>
  \<open>mm p A B\<close> is the matrix product of \<open>A\<close> (\<open>n \<times> m\<close>) and \<open>B\<close> (\<open>m \<times> p\<close>);
  \<open>matmul\<close> applies it to every batch element against one matrix, \<open>bmm\<close> batch by batch.
\<close>

definition mm :: "nat \<Rightarrow> ('a::{comm_monoid_add,times}) list list \<Rightarrow> 'a list list \<Rightarrow> 'a list list" where
  "mm p A B = map (\<lambda>r. map (\<lambda>c. sum_list (map (\<lambda>j. r ! j * B ! j ! c) [0..<length r])) [0..<p]) A"

definition matmul :: "('a::{comm_monoid_add,times}) list list list \<Rightarrow> 'a list list \<Rightarrow> nat \<Rightarrow> 'a list list list" where
  "matmul T W p = map (\<lambda>A. mm p A W) T"

definition bmm :: "('a::{comm_monoid_add,times}) list list list \<Rightarrow> 'a list list list \<Rightarrow> nat \<Rightarrow> 'a list list list" where
  "bmm S T p = map2 (\<lambda>A B. mm p A B) S T"

text \<open>\<open>torch.eye(n) * t\<close>, broadcast over the batch axis, and \<open>t.permute(0, 2, 1)\<close>.\<close>

definition eye :: "nat \<Rightarrow> fval list list" where
  "eye n = map (\<lambda>i. map (\<lambda>j. if i = j then 1 else 0) [0..<n]) [0..<n]"

definition eye_mul :: "nat \<Rightarrow> tensor3 \<Rightarrow> tensor3" where
  "eye_mul n t = map (\<lambda>a. map2 (\<lambda>er ar. map2 (*) er ar) (eye n) a) t"

definition permute021 :: "nat \<Rightarrow> 'a list list list \<Rightarrow> 'a list list list" where
  "permute021 n t = map (\<lambda>a. map (\<lambda>j. map (\<lambda>i. a ! i ! j) [0..<length a]) [0..<n]) t"

definition tadd :: "tensor3 \<Rightarrow> tensor3 \<Rightarrow> tensor3" where
  "tadd s t = map2 (map2 (map2 (+))) s t"

definition tsub :: "tensor3 \<Rightarrow> tensor3 \<Rightarrow> tensor3" where
  "tsub s t = map2 (map2 (map2 (-))) s t"

definition tscale :: "fval \<Rightarrow> tensor3 \<Rightarrow> tensor3" where
  "tscale a t = map (map (map (\<lambda>v. a * v))) t"

definition add_bias :: "tensor3 \<Rightarrow> tensor1 \<Rightarrow> tensor3" where
  "add_bias t b = map (map (\<lambda>r. map2 (+) r b)) t"

section \<open>Graph utilities of torch\_geometric\<close>

text \<open>
  \<open>remove_self_loops\<close> keeps the edges with \<open>row \<noteq> col\<close> and the weights at the same
  positions; a weight tensor of another length cannot be indexed by the mask.
\<close>

definition remove_self_loops ::
  "edge_index \<Rightarrow> tensor1 option \<Rightarrow> error + (edge_index \<times> tensor1 option)" where
  "remove_self_loops ei ea =
     (case ea of
        None \<Rightarrow> Inr (filter (\<lambda>e. fst e \<noteq> snd e) ei, None)
      | Some w \<Rightarrow>
          if length w \<noteq> length ei then Inl IndexError
          else Inr (filter (\<lambda>e. fst e \<noteq> snd e) ei,
                    Some (map snd (filter (\<lambda>p. fst (fst p) \<noteq> snd (fst p)) (zip ei w)))))"

text \<open>
  \<open>add_self_loops\<close> appends one loop \<open>(i, i)\<close> per node, after the edges already there,
  each with the fill value as its weight. It removes and replaces nothing.
\<close>

definition loop_index :: "nat \<Rightarrow> edge_index" where
  "loop_index n = map (\<lambda>i. (i, i)) [0..<n]"

definition add_self_loops :: "edge_index \<Rightarrow> tensor1 \<Rightarrow> fval \<Rightarrow> nat \<Rightarrow> edge_index \<times> tensor1" where
  "add_self_loops ei w fill_value n = (ei @ loop_index n, w @ replicate n fill_value)"

text \<open>\<open>scatter_add(src, index, dim_size=n)\<close>: slot \<open>i\<close> sums the entries sent to \<open>i\<close>.\<close>

definition scatter_add :: "tensor1 \<Rightarrow> nat list \<Rightarrow> nat \<Rightarrow> error + tensor1" where
  "scatter_add src index n =
     (if \<exists>i \<in> set index. n \<le> i then Inl RuntimeError
      else Inr (map (\<lambda>i. sum_list (map snd (filter (\<lambda>(j, v). j = i) (zip index src)))) [0..<n]))"

datatype normalization = NoNorm | Sym | Rw

text \<open>
  \<open>get_laplacian\<close>: the off-diagonal entries \<open>-A\<close> (scaled by the degrees under \<open>sym\<close> and
  \<open>rw\<close>) followed by one diagonal entry per node: the degree without normalization,
  \<open>1\<close> otherwise.
\<close>

definition get_laplacian ::
  "edge_index \<Rightarrow> tensor1 option \<Rightarrow> normalization \<Rightarrow> nat \<Rightarrow> error + (edge_index \<times> tensor1)" where
  "get_laplacian ei0 ea0 nm n =
     bindE (remove_self_loops ei0 ea0) (\<lambda>(ei, ea).
       let edge_weight = (case ea of None \<Rightarrow> replicate (length ei) 1 | Some w \<Rightarrow> w);
           row = map fst ei; col = map snd ei
       in bindE (scatter_add edge_weight row n) (\<lambda>deg.
            case nm of
              NoNorm \<Rightarrow> Inr (ei @ loop_index n, map uminus edge_weight @ deg)
            | Sym \<Rightarrow>
                if \<exists>c \<in> set col. n \<le> c then Inl IndexError
                else
                  let deg_inv_sqrt = masked_fill_inf (map pow_neg_half deg);
                      w = map (\<lambda>(e, v). deg_inv_sqrt ! fst e * v * deg_inv_sqrt ! snd e) (zip ei edge_weight)
                  in Inr (add_self_loops ei (map uminus w) 1 n)
            | Rw \<Rightarrow>
                let deg_inv = masked_fill_inf (map (\<lambda>d. 1 / d) deg);
                    w = map (\<lambda>(e, v). deg_inv ! fst e * v) (zip ei edge_weight)
                in Inr (add_self_loops ei (map uminus w) 1 n)))"

section \<open>ChebConvAttention\<close>

record ChebConvAttention =
  in_channels :: nat
  out_channels :: nat
  normalization :: normalization
  weight :: "fval list list list"
  bias :: "tensor1 option"

text \<open>
  What the constructor establishes: \<open>assert K > 0\<close>, a weight of shape
  \<open>(K, in_channels, out_channels)\<close> and, if present, a bias of length \<open>out_channels\<close>.
\<close>

definition layer_ok :: "ChebConvAttention \<Rightarrow> bool" where
  "layer_ok L \<longleftrightarrow>
     0 < length (weight L) \<and>
     list_all (\<lambda>W. length W = in_channels L \<and> list_all (\<lambda>r. length r = out_channels L) W) (weight L) \<and>
     (case bias L of None \<Rightarrow> True | Some b \<Rightarrow> length b = out_channels L)"

text \<open>
  \<open>lambda_max\<close> is a scalar (a Python float or a zero-dimensional tensor) or a
  one-dimensional tensor with one entry per graph of a mini-batch.
\<close>

datatype lambda_max = Scalar fval | Vector "fval list"

fun numel :: "lambda_max \<Rightarrow> nat" where
  "numel (Scalar v) = 1"
| "numel (Vector l) = length l"

text \<open>\<open>lambda_max[batch[edge_index[0]]]\<close>: one divisor per edge, looked up by its row.\<close>

definition lookup_lambda :: "fval list \<Rightarrow> nat list \<Rightarrow> nat list \<Rightarrow> error + lambda_max" where
  "lookup_lambda l batch row =
     (if \<exists>r \<in> set row. length batch \<le> r then Inl IndexError
      else if \<exists>r \<in> set row. length l \<le> batch ! r then Inl IndexError
      else Inr (Vector (map (\<lambda>r. l ! (batch ! r)) row)))"

text \<open>
  \<open>(2.0 * edge_weight) / lambda_max\<close> with the broadcasting of a division of two
  tensors of at most one dimension.
\<close>

definition scale_weights :: "tensor1 \<Rightarrow> lambda_max \<Rightarrow> error + tensor1" where
  "scale_weights w lam =
     (let w2 = map (\<lambda>v. Fin 2 * v) w in
      case lam of
        Scalar s \<Rightarrow> Inr (map (\<lambda>v. v / s) w2)
      | Vector l \<Rightarrow>
          if length l = length w2 then Inr (map2 (/) w2 l)
          else if length l = 1 then Inr (map (\<lambda>v. v / l ! 0) w2)
          else if length w2 = 1 then Inr (map (\<lambda>d. w2 ! 0 / d) l)
          else Inl RuntimeError)"

definition ChebConvAttention_norm ::
  "edge_index \<Rightarrow> nat \<Rightarrow> tensor1 option \<Rightarrow> normalization \<Rightarrow> lambda_max \<Rightarrow> nat list option
     \<Rightarrow> error + (edge_index \<times> tensor1)" where
  "ChebConvAttention_norm edge_index0 num_nodes edge_weight0 nm lambda_max0 batch =
     bindE (remove_self_loops edge_index0 edge_weight0) (\<lambda>(edge_index1, edge_weight1).
     bindE (get_laplacian edge_index1 edge_weight1 nm num_nodes) (\<lambda>(edge_index, edge_weight).
     bindE (case (batch, lambda_max0) of
              (Some b, Vector l) \<Rightarrow>
                 if 1 < length l then lookup_lambda l b (map fst edge_index) else Inr lambda_max0
            | _ \<Rightarrow> Inr lambda_max0) (\<lambda>lambda_max.
     bindE (scale_weights edge_weight lambda_max) (\<lambda>scaled.
       let edge_weight = masked_fill_inf scaled in
       if length edge_weight \<noteq> length edge_index then Inl AssertionError
       else Inr (add_self_loops edge_index edge_weight (Fin (- 1)) num_nodes)))))"

text \<open>
  \<open>message\<close> scales the gathered source features by the edge weights, which are shared
  by the batch (one dimension) or given per batch element (two dimensions).
\<close>

datatype norm_arg = Norm1 tensor1 | Norm2 tensor2

definition message :: "tensor3 \<Rightarrow> norm_arg \<Rightarrow> tensor3" where
  "message x_j nrm =
     (case nrm of
        Norm1 n \<Rightarrow> map (\<lambda>xb. map2 (\<lambda>w v. map (\<lambda>a. w * a) v) n xb) x_j
      | Norm2 n \<Rightarrow> map2 (\<lambda>nb xb. map2 (\<lambda>w v. map (\<lambda>a. w * a) v) nb xb) n x_j)"

text \<open>
  \<open>MessagePassing.propagate\<close> with \<open>aggr = 'add'\<close>: gather the features of the source
  node \<open>edge_index[0]\<close> of every edge, form the messages, and add each message into the
  slot of the edge's target node \<open>edge_index[1]\<close>.
\<close>

definition scatter_sum :: "tensor3 \<Rightarrow> nat list \<Rightarrow> nat \<Rightarrow> nat \<Rightarrow> tensor3" where
  "scatter_sum msg index n f =
     map (\<lambda>mb. map (\<lambda>i. map (\<lambda>k.
            sum_list (map (\<lambda>e. mb ! e ! k) (filter (\<lambda>e. index ! e = i) [0..<length index])))
          [0..<f]) [0..<n]) msg"

definition propagate :: "edge_index \<Rightarrow> tensor3 \<Rightarrow> norm_arg \<Rightarrow> nat \<Rightarrow> nat \<Rightarrow> tensor3" where
  "propagate ei x nrm n f =
     (let x_j = map (\<lambda>xb. map (\<lambda>e. xb ! fst e) ei) x
      in scatter_sum (message x_j nrm) (map snd ei) n f)"

text \<open>\<open>spatial_attention[:, row, col]\<close>: one attention score per batch element and edge.\<close>

definition index_attention :: "tensor3 \<Rightarrow> edge_index \<Rightarrow> error + tensor2" where
  "index_attention att ei =
     (if \<exists>e \<in> set ei. size_node att \<le> fst e \<or> size_last att \<le> snd e then Inl IndexError
      else Inr (map (\<lambda>ab. map (\<lambda>e. ab ! fst e ! snd e) ei) att))"

text \<open>
  The shapes the dense products of \<open>forward\<close> need: \<open>x\<close> is \<open>(B, N, in_channels)\<close> and
  \<open>spatial_attention\<close> is \<open>(B, N, N)\<close>. (Broadcasting of axes of extent one is not
  modelled.)
\<close>

definition call_shapes_ok :: "ChebConvAttention \<Rightarrow> tensor3 \<Rightarrow> tensor3 \<Rightarrow> bool" where
  "call_shapes_ok L x att \<longleftrightarrow>
     list_all (\<lambda>m. length m = size_node x \<and> list_all (\<lambda>r. length r = in_channels L) m) x \<and>
     length att = length x \<and>
     list_all (\<lambda>a. length a = size_node x \<and> list_all (\<lambda>r. length r = size_node x) a) att"

text \<open>The loop \<open>for k in range(2, K)\<close>, over the weight slices \<open>W[2], ..., W[K-1]\<close>.\<close>

fun cheb_loop ::
  "edge_index \<Rightarrow> tensor1 \<Rightarrow> nat \<Rightarrow> nat \<Rightarrow> nat \<Rightarrow> fval list list list
     \<Rightarrow> tensor3 \<Rightarrow> tensor3 \<Rightarrow> tensor3 \<Rightarrow> tensor3" where
  "cheb_loop eiT nrm n f p [] TAx_0 TAx_1 out = out"
| "cheb_loop eiT nrm n f p (Wk # Ws) TAx_0 TAx_1 out =
     (let P = propagate eiT TAx_1 (Norm1 nrm) n f;
          TAx_2 = tsub (tscale (Fin 2) P) TAx_0;
          out' = tadd out (matmul TAx_2 Wk p)
      in cheb_loop eiT nrm n f p Ws TAx_1 TAx_2 out')"

text \<open>
  Lines 130 to 148 of \<open>forward\<close>: the Chebyshev recursion on the normalized edge list
  \<open>edge_index\<close> with weights \<open>nrm\<close>, where \<open>att_e\<close> is \<open>spatial_attention[:, row, col]\<close>.
\<close>

definition forward_body ::
  "ChebConvAttention \<Rightarrow> tensor3 \<Rightarrow> tensor3 \<Rightarrow> edge_index \<Rightarrow> tensor1 \<Rightarrow> tensor2 \<Rightarrow> tensor3" where
  "forward_body L x spatial_attention edge_index nrm att_e =
     (let Att_norm = map (\<lambda>ab. map2 (*) nrm ab) att_e;
          num_nodes = size_node x;
          TAx_0 = bmm (permute021 num_nodes (eye_mul num_nodes spatial_attention)) x
                    (in_channels L);
          out = matmul TAx_0 (weight L ! 0) (out_channels L);
          edge_index_transpose = map (\<lambda>e. (snd e, fst e)) edge_index;
          out =
            (if 1 < length (weight L) then
               let TAx_1 = propagate edge_index_transpose TAx_0 (Norm2 Att_norm)
                             num_nodes (in_channels L);
                   out = tadd out (matmul TAx_1 (weight L ! 1) (out_channels L))
               in cheb_loop edge_index_transpose nrm num_nodes (in_channels L)
                    (out_channels L) (drop 2 (weight L)) TAx_0 TAx_1 out
             else out)
      in case bias L of None \<Rightarrow> out | Some b \<Rightarrow> add_bias out b)"

definition ChebConvAttention_forward ::
  "ChebConvAttention \<Rightarrow> tensor3 \<Rightarrow> edge_index \<Rightarrow> tensor3 \<Rightarrow> tensor1 option \<Rightarrow> nat list option
     \<Rightarrow> lambda_max option \<Rightarrow> error + tensor3" where
  "ChebConvAttention_forward L x edge_index0 spatial_attention edge_weight batch lambda_max0 =
     (if normalization L \<noteq> Sym \<and> lambda_max0 = None then Inl ValueError
      else
        let lambda_max = (case lambda_max0 of None \<Rightarrow> Scalar (Fin 2) | Some l \<Rightarrow> l)
        in bindE (ChebConvAttention_norm edge_index0 (size_node x) edge_weight (normalization L)
                    lambda_max batch) (\<lambda>(edge_index, nrm).
           bindE (index_attention spatial_attention edge_index) (\<lambda>att_e.
             if \<not> call_shapes_ok L x spatial_attention then Inl RuntimeError
             else Inr (forward_body L x spatial_attention edge_index nrm att_e))))"

section \<open>Well-formed calls\<close>

text \<open>
  A graph over \<open>n\<close> nodes: every endpoint is a node, and the weights, if given, are
  aligned with the edges.
\<close>

definition graph_ok :: "edge_index \<Rightarrow> tensor1 option \<Rightarrow> nat \<Rightarrow> bool" where
  "graph_ok ei ew n \<longleftrightarrow>
     list_all (\<lambda>e. fst e < n \<and> snd e < n) ei \<and>
     (case ew of None \<Rightarrow> True | Some w \<Rightarrow> length w = length ei)"

definition nonloops :: "edge_index \<Rightarrow> edge_index" where
  "nonloops ei = filter (\<lambda>e. fst e \<noteq> snd e) ei"

text \<open>
  A \<open>lambda_max\<close> the layer's documentation allows: a scalar (or a tensor with one entry),
  or one entry per graph together with a batch vector that assigns every node a graph.
\<close>

definition lambda_ok :: "lambda_max \<Rightarrow> nat list option \<Rightarrow> nat \<Rightarrow> bool" where
  "lambda_ok lam batch n \<longleftrightarrow>
     (case lam of
        Scalar s \<Rightarrow> True
      | Vector l \<Rightarrow>
          length l = 1 \<or>
          (1 < length l \<and>
           (case batch of
              None \<Rightarrow> False
            | Some b \<Rightarrow> n \<le> length b \<and> list_all (\<lambda>r. b ! r < length l) [0..<n])))"

definition default_lambda :: "lambda_max option \<Rightarrow> lambda_max" where
  "default_lambda lambda_max0 = (case lambda_max0 of None \<Rightarrow> Scalar (Fin 2) | Some l \<Rightarrow> l)"

text \<open>
  A call the layer's documentation allows: the constructor's invariant, the documented
  shapes, a graph over the nodes of \<open>x\<close>, and a \<open>lambda_max\<close> that is given unless the
  normalization is symmetric.
\<close>

definition call_ok ::
  "ChebConvAttention \<Rightarrow> tensor3 \<Rightarrow> edge_index \<Rightarrow> tensor3 \<Rightarrow> tensor1 option \<Rightarrow> nat list option
     \<Rightarrow> lambda_max option \<Rightarrow> bool" where
  "call_ok L x ei att ew batch lambda_max0 \<longleftrightarrow>
     layer_ok L \<and> call_shapes_ok L x att \<and> graph_ok ei ew (size_node x) \<and>
     (normalization L = Sym \<or> lambda_max0 \<noteq> None) \<and>
     lambda_ok (default_lambda lambda_max0) batch (size_node x)"

text \<open>
  The edge list \<open>__norm__\<close> returns for a graph over \<open>n\<close> nodes: the edges that are
  not loops, the diagonal entries of the Laplacian, and the appended loops.
\<close>

definition normalized_edges :: "edge_index \<Rightarrow> nat \<Rightarrow> edge_index" where
  "normalized_edges ei n = nonloops ei @ loop_index n @ loop_index n"

section \<open>The Chebyshev recursion, entry by entry\<close>

text \<open>
  The tensor of shape \<open>(B, N, F)\<close> with entries \<open>g b i k\<close>, and the predicate that a
  nested list has that shape.
\<close>

definition tab3 :: "nat \<Rightarrow> nat \<Rightarrow> nat \<Rightarrow> (nat \<Rightarrow> nat \<Rightarrow> nat \<Rightarrow> 'a) \<Rightarrow> 'a list list list" where
  "tab3 B N F g = map (\<lambda>b. map (\<lambda>i. map (\<lambda>k. g b i k) [0..<F]) [0..<N]) [0..<B]"

definition shape3 :: "nat \<Rightarrow> nat \<Rightarrow> nat \<Rightarrow> 'a list list list \<Rightarrow> bool" where
  "shape3 B N F t \<longleftrightarrow>
     length t = B \<and> list_all (\<lambda>m. length m = N \<and> list_all (\<lambda>r. length r = F) m) t"

text \<open>
  \<open>(I \<odot> spatial_attention)[b, i, j]\<close>, and the order-0 term
  \<open>(I \<odot> spatial_attention)\<^sup>T @ x\<close>.
\<close>

definition masked_attention :: "tensor3 \<Rightarrow> nat \<Rightarrow> nat \<Rightarrow> nat \<Rightarrow> fval" where
  "masked_attention att b i j = (if i = j then 1 else 0) * att ! b ! i ! j"

definition order0_term :: "tensor3 \<Rightarrow> tensor3 \<Rightarrow> nat \<Rightarrow> tensor3" where
  "order0_term att x F =
     tab3 (length x) (size_node x) F
       (\<lambda>b i k. \<Sum>j\<leftarrow>[0..<size_node x]. masked_attention att b j i * x ! b ! j ! k)"

text \<open>\<open>T @ W\<close> for a weight slice \<open>W\<close> of shape \<open>(F, p)\<close>.\<close>

definition project :: "tensor3 \<Rightarrow> fval list list \<Rightarrow> nat \<Rightarrow> nat \<Rightarrow> nat \<Rightarrow> tensor3" where
  "project T W N F p = tab3 (length T) N p (\<lambda>b i c. \<Sum>k\<leftarrow>[0..<F]. T ! b ! i ! k * W ! k ! c)"

text \<open>
  Propagation over the reversed edges: the reversed edge of \<open>(r, c)\<close> leads from \<open>c\<close> to
  \<open>r\<close>, so node \<open>v\<close> receives \<open>w b e * T[b, c]\<close> from every edge \<open>e = (v, c)\<close> of the
  list, and the contributions are added.
\<close>

definition reversed_propagate ::
  "edge_index \<Rightarrow> (nat \<Rightarrow> nat \<Rightarrow> fval) \<Rightarrow> tensor3 \<Rightarrow> nat \<Rightarrow> nat \<Rightarrow> tensor3" where
  "reversed_propagate E w T N F =
     tab3 (length T) N F
       (\<lambda>b v k. \<Sum>e\<leftarrow>filter (\<lambda>e. fst (E ! e) = v) [0..<length E]. w b e * T ! b ! snd (E ! e) ! k)"

text \<open>
  The terms \<open>T\<^sub>0\<close>, \<open>T\<^sub>1\<close> (attention-reweighted weights) and
  \<open>T\<^sub>k = 2 P - T\<^sub>k\<^sub>-\<^sub>2\<close> (plain weights), and the output: the sum over \<open>k\<close> of
  \<open>T\<^sub>k @ W[k]\<close>, plus the bias if there is one.
\<close>

fun cheb_term :: "edge_index \<Rightarrow> tensor1 \<Rightarrow> tensor3 \<Rightarrow> tensor3 \<Rightarrow> nat \<Rightarrow> nat \<Rightarrow> tensor3" where
  "cheb_term E nrm att x F 0 = order0_term att x F"
| "cheb_term E nrm att x F (Suc 0) =
     reversed_propagate E (\<lambda>b e. nrm ! e * att ! b ! fst (E ! e) ! snd (E ! e))
       (cheb_term E nrm att x F 0) (size_node x) F"
| "cheb_term E nrm att x F (Suc (Suc k)) =
     (let P = reversed_propagate E (\<lambda>b e. nrm ! e) (cheb_term E nrm att x F (Suc k)) (size_node x) F
      in tab3 (length x) (size_node x) F
           (\<lambda>b i c. Fin 2 * P ! b ! i ! c - cheb_term E nrm att x F k ! b ! i ! c))"

definition cheb_sum ::
  "ChebConvAttention \<Rightarrow> edge_index \<Rightarrow> tensor1 \<Rightarrow> tensor3 \<Rightarrow> tensor3 \<Rightarrow> nat \<Rightarrow> tensor3" where
  "cheb_sum L E nrm att x m =
     tab3 (length x) (size_node x) (out_channels L)
       (\<lambda>b i c. \<Sum>k\<leftarrow>[0..<m].
          project (cheb_term E nrm att x (in_channels L) k) (weight L ! k)
            (size_node x) (in_channels L) (out_channels L) ! b ! i ! c)"

definition cheb_output ::
  "ChebConvAttention \<Rightarrow> edge_index \<Rightarrow> tensor1 \<Rightarrow> tensor3 \<Rightarrow> tensor3 \<Rightarrow> tensor3" where
  "cheb_output L E nrm att x =
     (let s = cheb_sum L E nrm att x (length (weight L)) in
      case bias L of
        None \<Rightarrow> s
      | Some bv \<Rightarrow>
          tab3 (length x) (size_node x) (out_channels L) (\<lambda>b i c. s ! b ! i ! c + bv ! c))"

text \<open>The output of a layer with \<open>K = 1\<close>: the order-0 term alone.\<close>

definition order0_output :: "ChebConvAttention \<Rightarrow> tensor3 \<Rightarrow> tensor3 \<Rightarrow> tensor3" where
  "order0_output L x att =
     (let s = project (order0_term att x (in_channels L)) (weight L ! 0)
                (size_node x) (in_channels L) (out_channels L) in
      case bias L of
        None \<Rightarrow> s
      | Some bv \<Rightarrow>
          tab3 (length x) (size_node x) (out_channels L) (\<lambda>b i c. s ! b ! i ! c + bv ! c))"

text \<open>
  A weight slice of zeros, a tensor without infinite or NaN entries, and the condition
  that the term \<open>T\<^sub>K\<close> of a call to a layer of order \<open>K\<close> is such a tensor.
\<close>

definition zero_slice :: "nat \<Rightarrow> nat \<Rightarrow> fval list list" where
  "zero_slice F p = replicate F (replicate p 0)"

definition finite3 :: "tensor3 \<Rightarrow> bool" where
  "finite3 t = list_all (list_all (list_all finite_fval)) t"

definition extra_term_finite ::
  "ChebConvAttention \<Rightarrow> tensor3 \<Rightarrow> edge_index \<Rightarrow> tensor3 \<Rightarrow> tensor1 option \<Rightarrow> nat list option
     \<Rightarrow> lambda_max option \<Rightarrow> bool" where
  "extra_term_finite L x ei att ew batch lambda_max0 =
     (case ChebConvAttention_norm ei (size_node x) ew (normalization L)
             (default_lambda lambda_max0) batch of
        Inl err \<Rightarrow> False
      | Inr (E, nrm) \<Rightarrow> finite3 (cheb_term E nrm att x (in_channels L) (length (weight L))))"

section \<open>SpatialAttention and TemporalAttention\<close>

text \<open>
  The two attention modules, on tensors of finite numbers with exact arithmetic. \<open>X\<close> has
  shape \<open>(B, N, F, T)\<close>: batch, node, input channel, time step.
\<close>

type_synonym rtensor3 = "real list list list"
type_synonym rtensor4 = "real list list list list"

record SpatialAttention =
  W1 :: "real list"
  W2 :: "real list list"
  W3 :: "real list"
  bs :: "real list list list"
  Vs :: "real list list"

record TemporalAttention =
  U1 :: "real list"
  U2 :: "real list list"
  U3 :: "real list"
  be :: "real list list list"
  Ve :: "real list list"

definition sigmoid :: "real \<Rightarrow> real" where
  "sigmoid v = 1 / (1 + exp (- v))"

text \<open>
  \<open>torch.matmul(X, w)\<close> for a vector \<open>w\<close> over the last axis of \<open>X\<close>, and
  \<open>torch.matmul(w, X)\<close> for a vector \<open>w\<close> over the axis before the last.
\<close>

definition matvec_last :: "rtensor4 \<Rightarrow> real list \<Rightarrow> rtensor3" where
  "matvec_last X w = map (map (map (\<lambda>r. \<Sum>t\<leftarrow>[0..<length r]. r ! t * w ! t))) X"

definition vecmat_inner :: "real list \<Rightarrow> rtensor4 \<Rightarrow> nat \<Rightarrow> rtensor3" where
  "vecmat_inner w X p = map (map (\<lambda>m. map (\<lambda>t. \<Sum>f\<leftarrow>[0..<length w]. w ! f * m ! f ! t) [0..<p])) X"

text \<open>
  \<open>X.permute(0, 3, 2, 1)\<close>, the addition of a bias of shape \<open>(1, n, n)\<close>, and
  \<open>torch.matmul(V, S)\<close> for a matrix \<open>V\<close> against every batch element of \<open>S\<close>.
\<close>

definition permute0321 :: "nat \<Rightarrow> nat \<Rightarrow> rtensor4 \<Rightarrow> rtensor4" where
  "permute0321 T F X =
     map (\<lambda>Xb. map (\<lambda>t. map (\<lambda>f. map (\<lambda>n. Xb ! n ! f ! t) [0..<length Xb]) [0..<F]) [0..<T]) X"

definition add_broadcast :: "rtensor3 \<Rightarrow> rtensor3 \<Rightarrow> rtensor3" where
  "add_broadcast S b = map (\<lambda>m. map2 (map2 (+)) m (b ! 0)) S"

definition lmatmul :: "real list list \<Rightarrow> rtensor3 \<Rightarrow> nat \<Rightarrow> rtensor3" where
  "lmatmul V S p = map (\<lambda>m. mm p V m) S"

text \<open>\<open>F.softmax(S, dim=1)\<close>: normalization over the first index after the batch.\<close>

definition softmax_dim1 :: "rtensor3 \<Rightarrow> rtensor3" where
  "softmax_dim1 S =
     map (\<lambda>m. map (\<lambda>i. map (\<lambda>j. exp (m ! i ! j) / (\<Sum>i'\<leftarrow>[0..<length m]. exp (m ! i' ! j)))
                        [0..<length (m ! i)]) [0..<length m]) S"

definition SpatialAttention_forward :: "SpatialAttention \<Rightarrow> rtensor4 \<Rightarrow> rtensor3" where
  "SpatialAttention_forward P X =
     (let T = length (W1 P); N = length (Vs P);
          LHS = matmul (matvec_last X (W1 P)) (W2 P) T;
          RHS = permute021 T (vecmat_inner (W3 P) X T);
          S = lmatmul (Vs P) (map (map (map sigmoid)) (add_broadcast (bmm LHS RHS N) (bs P))) N
      in softmax_dim1 S)"

definition TemporalAttention_forward :: "TemporalAttention \<Rightarrow> rtensor4 \<Rightarrow> rtensor3" where
  "TemporalAttention_forward P X =
     (let N = length (U1 P); T = length (Ve P); F = length (U3 P);
          LHS = matmul (matvec_last (permute0321 T F X) (U1 P)) (U2 P) N;
          RHS = vecmat_inner (U3 P) X T;
          E = lmatmul (Ve P) (map (map (map sigmoid)) (add_broadcast (bmm LHS RHS T) (be P))) T
      in softmax_dim1 E)"

text \<open>The shapes of the input and of the parameters the constructors allocate.\<close>

definition shape4 :: "nat \<Rightarrow> nat \<Rightarrow> nat \<Rightarrow> nat \<Rightarrow> 'a list list list list \<Rightarrow> bool" where
  "shape4 B N F T X \<longleftrightarrow> length X = B \<and> list_all (shape3 N F T) X"

definition spatial_ok :: "SpatialAttention \<Rightarrow> nat \<Rightarrow> nat \<Rightarrow> nat \<Rightarrow> bool" where
  "spatial_ok P N F T \<longleftrightarrow>
     length (W1 P) = T \<and> length (W2 P) = F \<and> list_all (\<lambda>r. length r = T) (W2 P) \<and>
     length (W3 P) = F \<and> shape3 1 N N (bs P) \<and>
     length (Vs P) = N \<and> list_all (\<lambda>r. length r = N) (Vs P)"

definition temporal_ok :: "TemporalAttention \<Rightarrow> nat \<Rightarrow> nat \<Rightarrow> nat \<Rightarrow> bool" where
  "temporal_ok P N F T \<longleftrightarrow>
     length (U1 P) = N \<and> length (U2 P) = F \<and> list_all (\<lambda>r. length r = N) (U2 P) \<and>
     length (U3 P) = F \<and> shape3 1 T T (be P) \<and>
     length (Ve P) = T \<and> list_all (\<lambda>r. length r = T) (Ve P)"

text \<open>The sum along axis 1 of an attention matrix, for a batch element and a fixed last index.\<close>

definition column_sum :: "rtensor3 \<Rightarrow> nat \<Rightarrow> nat \<Rightarrow> real" where
  "column_sum S b j = (\<Sum>i\<leftarrow>[0..<length (S ! b)]. S ! b ! i ! j)"

section \<open>Example inputs\<close>

text \<open>
  A ring of four nodes with both directions of every edge, one batch element with one
  input channel, and a uniform attention matrix.
\<close>

definition ring4 :: edge_index where
  "ring4 = [(0, 1), (1, 0), (1, 2), (2, 1), (2, 3), (3, 2), (3, 0), (0, 3)]"

definition layer_sym1 :: ChebConvAttention where
  "layer_sym1 = \<lparr>in_channels = 1, out_channels = 1, normalization = Sym,
                 weight = [[[Fin 1]]], bias = None\<rparr>"

definition x41 :: tensor3 where
  "x41 = [[[Fin 1], [Fin 2], [Fin 3], [Fin 4]]]"

definition att4 :: tensor3 where
  "att4 = [[[Fin (1 / 4), Fin (1 / 4), Fin (1 / 4), Fin (1 / 4)],
            [Fin (1 / 4), Fin (1 / 4), Fin (1 / 4), Fin (1 / 4)],
            [Fin (1 / 4), Fin (1 / 4), Fin (1 / 4), Fin (1 / 4)],
            [Fin (1 / 4), Fin (1 / 4), Fin (1 / 4), Fin (1 / 4)]]]"

section \<open>What the normalized weights are\<close>

text \<open>
  The scaled weight \<open>2 v / 0\<close> after the mask, for a Laplacian weight \<open>v\<close>: a positive
  weight gives \<open>+inf\<close>, which the mask replaces by \<open>0\<close>; a negative weight gives \<open>-inf\<close>
  and a zero weight gives NaN, and the mask tests neither.
\<close>

fun zero_scaled :: "fval \<Rightarrow> fval" where
  "zero_scaled (Fin a) = (if 0 < a then Fin 0 else if a < 0 then NInf else NaN)"
| "zero_scaled PInf = Fin 0"
| "zero_scaled NInf = NInf"
| "zero_scaled NaN = NaN"

text \<open>
  The weight a position \<open>p\<close> of the operator carries under sum aggregation: the sum of
  the weights of all entries of the edge list at \<open>p\<close>.
\<close>

definition effective_weight :: "edge_index \<Rightarrow> tensor1 \<Rightarrow> nat \<times> nat \<Rightarrow> fval" where
  "effective_weight E w p = sum_list (map snd (filter (\<lambda>q. fst q = p) (zip E w)))"

text \<open>
  The diagonal entry \<open>1\<close> of a normalized Laplacian after scaling by \<open>2 / s\<close> and the mask.
\<close>

definition scaled_diagonal :: "fval \<Rightarrow> fval" where
  "scaled_diagonal s = (let v = (Fin 2 * 1) / s in if is_inf v then 0 else v)"


definition layer_k3 :: ChebConvAttention where
  "layer_k3 = \<lparr>in_channels = 1, out_channels = 1, normalization = Sym,
                weight = [[[Fin 1]], [[Fin 2]], [[Fin 3]]], bias = Some [Fin 5]\<rparr>"

text \<open>Two linked nodes with unit features and a uniform attention matrix.\<close>

definition pair_edges :: edge_index where
  "pair_edges = [(0, 1), (1, 0)]"

definition x21 :: tensor3 where
  "x21 = [[[Fin 1], [Fin 1]]]"

definition att2 :: tensor3 where
  "att2 = [[[Fin (1 / 2), Fin (1 / 2)], [Fin (1 / 2), Fin (1 / 2)]]]"

text \<open>Attention modules over two nodes, one channel and two time steps.\<close>

definition spatial_example :: SpatialAttention where
  "spatial_example = \<lparr>W1 = [1, 2], W2 = [[1, 0]], W3 = [3],
     bs = [[[0, 1], [1, 0]]], Vs = [[1, -1], [2, 0]]\<rparr>"

definition temporal_example :: TemporalAttention where
  "temporal_example = \<lparr>U1 = [1, 1], U2 = [[1, 2]], U3 = [1],
     be = [[[0, 0], [0, 0]]], Ve = [[1, 0], [0, 1]]\<rparr>"

definition X_example :: rtensor4 where
  "X_example = [[[[1, 2]], [[3, 4]]]]"

section \<open>Normalization succeeds on a graph\<close>

lemmas fval_defs = zero_fval_def one_fval_def plus_fval_def uminus_fval_def minus_fval_def
  times_fval_def divide_fval_def

lemma bindE_Inr [simp]: "bindE (Inr v) f = f v"
  by (simp add: bindE_def)

lemma bindE_Inl [simp]: "bindE (Inl e) f = Inl e"
  by (simp add: bindE_def)

lemma length_loop_index [simp]: "length (loop_index n) = n"
  by (simp add: loop_index_def)

lemma nonloops_idem [simp]: "nonloops (nonloops ei) = nonloops ei"
  by (simp add: nonloops_def)

lemma remove_self_loops_ok:
  assumes "graph_ok ei ew n"
  obtains ew' where "remove_self_loops ei ew = Inr (nonloops ei, ew')"
    and "graph_ok (nonloops ei) ew' n"
proof (cases ew)
  case None
  with assms have "remove_self_loops ei ew = Inr (nonloops ei, None)" "graph_ok (nonloops ei) None n"
    by (auto simp: remove_self_loops_def nonloops_def graph_ok_def list_all_iff)
  then show ?thesis using that by blast
next
  case (Some w)
  with assms have len: "length w = length ei" by (simp add: graph_ok_def)
  let ?w' = "map snd (filter (\<lambda>p. fst (fst p) \<noteq> snd (fst p)) (zip ei w))"
  have "map fst (filter (\<lambda>p. fst (fst p) \<noteq> snd (fst p)) (zip ei w)) = nonloops ei"
    using len[symmetric] by (induction ei w rule: list_induct2) (auto simp: nonloops_def)
  then have "length ?w' = length (nonloops ei)"
    by (metis length_map)
  with Some assms len have "remove_self_loops ei ew = Inr (nonloops ei, Some ?w')"
    "graph_ok (nonloops ei) (Some ?w') n"
    by (auto simp: remove_self_loops_def nonloops_def graph_ok_def list_all_iff)
  then show ?thesis using that by blast
qed

lemma remove_self_loops_nonloops:
  assumes "graph_ok (nonloops ei) ew n"
  shows "remove_self_loops (nonloops ei) ew = Inr (nonloops ei, ew)"
proof (cases ew)
  case None
  then show ?thesis by (simp add: remove_self_loops_def nonloops_def)
next
  case (Some w)
  with assms have len: "length w = length (nonloops ei)" by (simp add: graph_ok_def)
  have "\<forall>p \<in> set (zip (nonloops ei) w). fst (fst p) \<noteq> snd (fst p)"
    by (auto simp: nonloops_def dest!: set_zip_leftD)
  then have "filter (\<lambda>p. fst (fst p) \<noteq> snd (fst p)) (zip (nonloops ei) w) = zip (nonloops ei) w"
    by (simp add: filter_id_conv)
  with Some len show ?thesis
    by (simp add: remove_self_loops_def) (simp add: nonloops_def)
qed

lemma get_laplacian_ok:
  assumes "graph_ok (nonloops ei) ew n"
  obtains w where "get_laplacian (nonloops ei) ew nm n = Inr (nonloops ei @ loop_index n, w)"
    and "length w = length (nonloops ei) + n"
proof -
  let ?ei = "nonloops ei"
  let ?w = "case ew of None \<Rightarrow> replicate (length ?ei) 1 | Some w \<Rightarrow> w"
  have len: "length ?w = length ?ei"
    using assms by (auto simp: graph_ok_def split: option.splits)
  have rng: "\<forall>(r, c) \<in> set ?ei. r < n \<and> c < n"
    using assms by (auto simp: graph_ok_def list_all_iff)
  then have row: "\<not> (\<exists>i \<in> set (map fst ?ei). n \<le> i)" and col: "\<not> (\<exists>c \<in> set (map snd ?ei). n \<le> c)"
    by fastforce+
  obtain deg where deg: "scatter_add ?w (map fst ?ei) n = Inr deg" "length deg = n"
    using row by (simp add: scatter_add_def)
  show ?thesis
  proof (cases nm)
    case NoNorm
    then show ?thesis
      using that[of "map uminus ?w @ deg"] deg len col
      by (simp add: get_laplacian_def remove_self_loops_nonloops[OF assms])
  next
    case Sym
    then show ?thesis
      using deg len col
      by (intro that[of "snd (add_self_loops ?ei (map uminus (map (\<lambda>(e, v). masked_fill_inf (map pow_neg_half deg) ! fst e * v * masked_fill_inf (map pow_neg_half deg) ! snd e) (zip ?ei ?w))) 1 n)"])
         (simp_all add: get_laplacian_def remove_self_loops_nonloops[OF assms] add_self_loops_def Let_def)
  next
    case Rw
    then show ?thesis
      using deg len col
      by (intro that[of "snd (add_self_loops ?ei (map uminus (map (\<lambda>(e, v). masked_fill_inf (map (\<lambda>d. 1 / d) deg) ! fst e * v) (zip ?ei ?w))) 1 n)"])
         (simp_all add: get_laplacian_def remove_self_loops_nonloops[OF assms] add_self_loops_def Let_def)
  qed
qed

lemma lookup_lambda_ok:
  assumes "n \<le> length b" "list_all (\<lambda>r. b ! r < length l) [0..<n]" "\<forall>r \<in> set row. r < n"
  shows "lookup_lambda l b row = Inr (Vector (map (\<lambda>r. l ! (b ! r)) row))"
  using assms by (force simp: lookup_lambda_def list_all_iff)

lemma scale_weights_ok:
  assumes "lam = Scalar s \<or> (\<exists>l. lam = Vector l \<and> (length l = 1 \<or> length l = length w))"
  shows "\<exists>w'. scale_weights w lam = Inr w' \<and> length w' = length w"
  using assms by (auto simp: scale_weights_def Let_def)

lemma norm_ok:
  assumes g: "graph_ok ei ew n" and l: "lambda_ok lam batch n"
  obtains nrm where
    "ChebConvAttention_norm ei n ew nm lam batch = Inr (nonloops ei @ loop_index n @ loop_index n, nrm)"
    and "length nrm = length (nonloops ei) + n + n"
proof -
  obtain ew' where r: "remove_self_loops ei ew = Inr (nonloops ei, ew')" and g': "graph_ok (nonloops ei) ew' n"
    using remove_self_loops_ok[OF g] by blast
  obtain w where gl: "get_laplacian (nonloops ei) ew' nm n = Inr (nonloops ei @ loop_index n, w)"
    and lw: "length w = length (nonloops ei) + n"
    using get_laplacian_ok[OF g'] by blast
  let ?E = "nonloops ei @ loop_index n"
  have rows: "\<forall>r \<in> set (map fst ?E). r < n"
    using g' by (auto simp: graph_ok_def list_all_iff loop_index_def)
  let ?sel = "case (batch, lam) of
              (Some b, Vector l) \<Rightarrow> if 1 < length l then lookup_lambda l b (map fst ?E) else Inr lam
            | _ \<Rightarrow> Inr lam"
  obtain lam' where sel: "?sel = Inr lam'"
    and lam': "lam' = Scalar (case lam' of Scalar s \<Rightarrow> s | _ \<Rightarrow> 0) \<or> (\<exists>l. lam' = Vector l \<and> (length l = 1 \<or> length l = length w))"
  proof (cases lam)
    case (Scalar s)
    then show ?thesis using that[of lam] by (auto split: option.splits)
  next
    case (Vector l)
    show ?thesis
    proof (cases "1 < length l")
      case True
      with l Vector obtain b where b: "batch = Some b" "n \<le> length b" "list_all (\<lambda>r. b ! r < length l) [0..<n]"
        by (auto simp: lambda_ok_def split: option.splits)
      have "lookup_lambda l b (map fst ?E) = Inr (Vector (map (\<lambda>r. l ! (b ! r)) (map fst ?E)))"
        using lookup_lambda_ok[OF b(2,3) rows] .
      with b True Vector lw show ?thesis
        by (intro that[of "Vector (map (\<lambda>r. l ! (b ! r)) (map fst ?E))"]) simp_all
    next
      case False
      with l Vector have "length l = 1" by (auto simp: lambda_ok_def)
      with Vector show ?thesis using that[of lam] by (auto split: option.splits)
    qed
  qed
  obtain sc where sc: "scale_weights w lam' = Inr sc" "length sc = length w"
    using lam' scale_weights_ok[of lam' _ w] by blast
  show ?thesis
    using r gl sel sc lw
    by (intro that[of "masked_fill_inf sc @ replicate n (Fin (- 1))"])
       (simp_all add: ChebConvAttention_norm_def masked_fill_inf_def add_self_loops_def)
qed

section \<open>A well-formed call returns\<close>

lemma normalized_edges_range:
  assumes "graph_ok ei ew n"
  shows "\<forall>e \<in> set (normalized_edges ei n). fst e < n \<and> snd e < n"
  using assms by (auto simp: normalized_edges_def graph_ok_def nonloops_def loop_index_def list_all_iff)

lemma index_attention_ok:
  assumes sh: "call_shapes_ok L x att" and rng: "\<forall>e \<in> set E. fst e < size_node x \<and> snd e < size_node x"
  shows "index_attention att E = Inr (map (\<lambda>ab. map (\<lambda>e. ab ! fst e ! snd e) E) att)"
proof (cases "E = []")
  case True
  then show ?thesis by (simp add: index_attention_def)
next
  case False
  then obtain e where e: "e \<in> set E" by (cases E) auto
  with rng have pos: "0 < size_node x" by fastforce
  then obtain m xs where x: "x = m # xs" by (cases x) (auto simp: size_node_def)
  with sh obtain a as where att: "att = a # as" by (cases att) (auto simp: call_shapes_ok_def)
  from sh att have a: "length a = size_node x" "\<forall>r \<in> set a. length r = size_node x"
    by (auto simp: call_shapes_ok_def list_all_iff)
  with pos obtain r rs where "a = r # rs" by (cases a) auto
  with a att have "size_node att = size_node x" "size_last att = size_node x"
    by (auto simp: size_node_def size_last_def)
  with rng show ?thesis by (auto simp: index_attention_def)
qed

lemma forward_ok:
  assumes ok: "call_ok L x ei att ew batch lambda_max0"
  obtains nrm where
    "ChebConvAttention_norm ei (size_node x) ew (normalization L) (default_lambda lambda_max0) batch
       = Inr (normalized_edges ei (size_node x), nrm)"
    and "length nrm = length (normalized_edges ei (size_node x))"
    and "ChebConvAttention_forward L x ei att ew batch lambda_max0
       = Inr (forward_body L x att (normalized_edges ei (size_node x)) nrm
               (map (\<lambda>ab. map (\<lambda>e. ab ! fst e ! snd e) (normalized_edges ei (size_node x))) att))"
proof -
  let ?n = "size_node x"
  from ok have g: "graph_ok ei ew ?n" and l: "lambda_ok (default_lambda lambda_max0) batch ?n"
    and sh: "call_shapes_ok L x att" and given: "normalization L = Sym \<or> lambda_max0 \<noteq> None"
    by (auto simp: call_ok_def)
  obtain nrm where n: "ChebConvAttention_norm ei ?n ew (normalization L) (default_lambda lambda_max0) batch
       = Inr (normalized_edges ei ?n, nrm)" and len: "length nrm = length (nonloops ei) + ?n + ?n"
    using norm_ok[OF g l] unfolding normalized_edges_def by blast
  have idx: "index_attention att (normalized_edges ei ?n)
      = Inr (map (\<lambda>ab. map (\<lambda>e. ab ! fst e ! snd e) (normalized_edges ei ?n)) att)"
    using index_attention_ok[OF sh normalized_edges_range[OF g]] .
  have "ChebConvAttention_forward L x ei att ew batch lambda_max0
       = Inr (forward_body L x att (normalized_edges ei ?n) nrm
               (map (\<lambda>ab. map (\<lambda>e. ab ! fst e ! snd e) (normalized_edges ei ?n)) att))"
    using given n idx sh
    by (auto simp: ChebConvAttention_forward_def default_lambda_def)
  with n len show ?thesis
    using that by (simp add: normalized_edges_def)
qed

section \<open>The missing-argument error\<close>

text \<open>
  C7. When the normalization is not symmetric and \<open>lambda_max\<close> is omitted, \<open>forward\<close>
  raises \<open>ValueError\<close>, whatever the other arguments are: the test is the first statement
  of the method. With symmetric normalization an omitted \<open>lambda_max\<close> is the scalar
  \<open>2.0\<close>, and a well-formed call returns a tensor.
\<close>

theorem forward_requires_lambda_max:
  "(normalization L \<noteq> Sym \<longrightarrow>
      ChebConvAttention_forward L x ei att ew batch None = Inl ValueError) \<and>
   (normalization L = Sym \<and> call_ok L x ei att ew batch None \<longrightarrow>
      ChebConvAttention_forward L x ei att ew batch None
        = ChebConvAttention_forward L x ei att ew batch (Some (Scalar (Fin 2))) \<and>
      (\<exists>out. ChebConvAttention_forward L x ei att ew batch None = Inr out))"
proof (intro conjI impI)
  assume "normalization L \<noteq> Sym"
  then show "ChebConvAttention_forward L x ei att ew batch None = Inl ValueError"
    by (simp add: ChebConvAttention_forward_def)
next
  assume a: "normalization L = Sym \<and> call_ok L x ei att ew batch None"
  then show "ChebConvAttention_forward L x ei att ew batch None
        = ChebConvAttention_forward L x ei att ew batch (Some (Scalar (Fin 2)))"
    by (simp add: ChebConvAttention_forward_def)
  from a show "\<exists>out. ChebConvAttention_forward L x ei att ew batch None = Inr out"
    using forward_ok[of L x ei att ew batch None] by metis
qed

lemma call_ok_ring4: "call_ok layer_sym1 x41 ring4 att4 None None None"
  by (simp add: call_ok_def layer_ok_def call_shapes_ok_def graph_ok_def lambda_ok_def
      default_lambda_def layer_sym1_def x41_def att4_def ring4_def size_node_def)

theorem forward_requires_lambda_max_witness:
  "normalization (layer_sym1\<lparr>normalization := NoNorm\<rparr>) \<noteq> Sym \<and>
   ChebConvAttention_forward (layer_sym1\<lparr>normalization := NoNorm\<rparr>) x41 ring4 att4 None None None
     = Inl ValueError \<and>
   normalization layer_sym1 = Sym \<and> call_ok layer_sym1 x41 ring4 att4 None None None \<and>
   (\<exists>out. ChebConvAttention_forward layer_sym1 x41 ring4 att4 None None None = Inr out)"
proof -
  have n: "normalization (layer_sym1\<lparr>normalization := NoNorm\<rparr>) \<noteq> Sym"
    and s: "normalization layer_sym1 = Sym"
    by (simp_all add: layer_sym1_def)
  from n s call_ok_ring4
    forward_requires_lambda_max[of "layer_sym1\<lparr>normalization := NoNorm\<rparr>" x41 ring4 att4 None None]
    forward_requires_lambda_max[of layer_sym1 x41 ring4 att4 None None]
  show ?thesis by blast
qed

section \<open>Scaling by a zero lambda\_max\<close>

lemma get_laplacian_nonloops:
  assumes "remove_self_loops ei ew = Inr (nonloops ei, ew')" "graph_ok (nonloops ei) ew' n"
  shows "get_laplacian (nonloops ei) ew' nm n = get_laplacian ei ew nm n"
  using assms remove_self_loops_nonloops[OF assms(2)]
  by (simp add: get_laplacian_def)

lemma norm_scalar:
  assumes g: "graph_ok ei ew n"
  obtains w where "get_laplacian ei ew nm n = Inr (nonloops ei @ loop_index n, w)"
    and "length w = length (nonloops ei) + n"
    and "ChebConvAttention_norm ei n ew nm (Scalar s) batch
       = Inr (normalized_edges ei n,
              masked_fill_inf (map (\<lambda>v. (Fin 2 * v) / s) w) @ replicate n (Fin (- 1)))"
proof -
  obtain ew' where r: "remove_self_loops ei ew = Inr (nonloops ei, ew')" and g': "graph_ok (nonloops ei) ew' n"
    using remove_self_loops_ok[OF g] by blast
  obtain w where gl: "get_laplacian (nonloops ei) ew' nm n = Inr (nonloops ei @ loop_index n, w)"
    and lw: "length w = length (nonloops ei) + n"
    using get_laplacian_ok[OF g'] by blast
  have "ChebConvAttention_norm ei n ew nm (Scalar s) batch
       = Inr (normalized_edges ei n,
              masked_fill_inf (map (\<lambda>v. (Fin 2 * v) / s) w) @ replicate n (Fin (- 1)))"
    using r gl lw
    by (simp add: ChebConvAttention_norm_def scale_weights_def masked_fill_inf_def add_self_loops_def
        normalized_edges_def split: option.splits)
  with gl lw get_laplacian_nonloops[OF r g'] show ?thesis
    using that by simp
qed

lemma zero_scaled_eq: "(if is_inf ((Fin 2 * v) / Fin 0) then 0 else (Fin 2 * v) / Fin 0) = zero_scaled v"
  by (cases v) (auto simp: fval_defs)

lemma zero_scaled_not_inf [simp]: "zero_scaled v \<noteq> PInf" "PInf \<noteq> zero_scaled v"
  by (cases v; simp)+

text \<open>
  C4, as the code has it. With \<open>lambda_max = 0\<close> every weight of the Laplacian \<open>w\<close> is
  replaced by \<open>zero_scaled\<close> of it, and no returned weight is \<open>+inf\<close>: the \<open>+inf\<close> that
  the division gives for a positive weight is mapped to \<open>0\<close>.
\<close>

theorem norm_lambda_max_zero:
  assumes "graph_ok ei ew n"
  shows "\<exists>w. get_laplacian ei ew nm n = Inr (nonloops ei @ loop_index n, w) \<and>
             ChebConvAttention_norm ei n ew nm (Scalar (Fin 0)) batch
               = Inr (normalized_edges ei n, map zero_scaled w @ replicate n (Fin (- 1))) \<and>
             PInf \<notin> set (map zero_scaled w @ replicate n (Fin (- 1)))"
proof -
  obtain w where w: "get_laplacian ei ew nm n = Inr (nonloops ei @ loop_index n, w)"
    and n: "ChebConvAttention_norm ei n ew nm (Scalar (Fin 0)) batch
       = Inr (normalized_edges ei n,
              masked_fill_inf (map (\<lambda>v. (Fin 2 * v) / Fin 0) w) @ replicate n (Fin (- 1)))"
    using norm_scalar[OF assms] by metis
  have "masked_fill_inf (map (\<lambda>v. (Fin 2 * v) / Fin 0) w) = map zero_scaled w"
    by (simp add: masked_fill_inf_def zero_scaled_eq)
  moreover have "PInf \<notin> set (map zero_scaled w @ replicate n (Fin (- 1)))"
    by auto
  ultimately show ?thesis using w n by auto
qed

text \<open>
  The two edges of a pair of linked nodes have the Laplacian weight \<open>-1\<close>; divided by a
  zero \<open>lambda_max\<close> they are \<open>-inf\<close>, and stay so.
\<close>

theorem norm_lambda_max_zero_counterexample:
  "ChebConvAttention_norm [(0, 1), (1, 0)] 2 None Sym (Scalar (Fin 0)) None
     = Inr ([(0, 1), (1, 0), (0, 0), (1, 1), (0, 0), (1, 1)],
            [NInf, NInf, Fin 0, Fin 0, Fin (- 1), Fin (- 1)])"
  by (simp add: ChebConvAttention_norm_def remove_self_loops_def get_laplacian_def scatter_add_def
      masked_fill_inf_def add_self_loops_def loop_index_def scale_weights_def fval_defs numeral_2_eq_2)

lemma graph_ok_pair: "graph_ok [(0, 1), (1, 0)] None 2"
  by (simp add: graph_ok_def)

theorem norm_lambda_max_zero_witness:
  "graph_ok [(0, 1), (1, 0)] None 2 \<and>
   (\<exists>w. get_laplacian [(0, 1), (1, 0)] None Sym 2 = Inr (nonloops [(0, 1), (1, 0)] @ loop_index 2, w) \<and>
        ChebConvAttention_norm [(0, 1), (1, 0)] 2 None Sym (Scalar (Fin 0)) None
          = Inr (normalized_edges [(0, 1), (1, 0)] 2, map zero_scaled w @ replicate 2 (Fin (- 1))) \<and>
        PInf \<notin> set (map zero_scaled w @ replicate 2 (Fin (- 1))))"
  using norm_lambda_max_zero[OF graph_ok_pair, of Sym None] graph_ok_pair by simp

section \<open>The self-loops of the symmetric normalization\<close>













text \<open>
  The kept diagonal entry is \<open>0\<close> exactly for a divisor that is zero or infinite, and \<open>1\<close>
  for the default \<open>lambda_max = 2\<close>.
\<close>

lemma scaled_diagonal_default: "scaled_diagonal (Fin 2) = Fin 1"
  by (simp add: scaled_diagonal_def fval_defs)

lemma scaled_diagonal_zero: "scaled_diagonal (Fin 0) = Fin 0"
  by (simp add: scaled_diagonal_def fval_defs)

lemma scaled_diagonal_zero_iff:
  "scaled_diagonal s = Fin 0 \<longleftrightarrow> s = Fin 0 \<or> s = PInf \<or> s = NInf"
  by (cases s) (auto simp: scaled_diagonal_def fval_defs Let_def)



text \<open>
  Two runs of \<open>__norm__\<close>: one value of \<open>lambda_max\<close> per graph, and \<open>lambda_max = 0\<close>,
  where the diagonal entries are masked to \<open>0\<close> and position \<open>(0, 0)\<close> carries \<open>-1\<close>.
\<close>

lemma norm_sym_per_graph_example:
  "ChebConvAttention_norm [(0, 1), (1, 1), (1, 0)] 2 (Some [Fin 4, Fin 7, Fin 4]) Sym
        (Vector [Fin 2, Fin 4]) (Some [0, 1])
     = Inr ([(0, 1), (1, 0), (0, 0), (1, 1), (0, 0), (1, 1)],
            [Fin (- 1), Fin (- (1 / 2)), Fin 1, Fin (1 / 2), Fin (- 1), Fin (- 1)])"
  by (simp add: ChebConvAttention_norm_def remove_self_loops_def get_laplacian_def scatter_add_def
      masked_fill_inf_def add_self_loops_def loop_index_def scale_weights_def lookup_lambda_def
      fval_defs numeral_2_eq_2 effective_weight_def)

lemma norm_sym_lambda_zero_example:
  "ChebConvAttention_norm [(0, 1), (1, 0)] 2 None Sym (Scalar (Fin 0)) None
     = Inr ([(0, 1), (1, 0), (0, 0), (1, 1), (0, 0), (1, 1)],
            [NInf, NInf, Fin 0, Fin 0, Fin (- 1), Fin (- 1)]) \<and>
   effective_weight [(0, 1), (1, 0), (0, 0), (1, 1), (0, 0), (1, 1)]
     [NInf, NInf, Fin 0, Fin 0, Fin (- 1), Fin (- 1)] (0, 0) = Fin (- 1)"
  by (simp add: ChebConvAttention_norm_def remove_self_loops_def get_laplacian_def scatter_add_def
      masked_fill_inf_def add_self_loops_def loop_index_def scale_weights_def
      fval_defs numeral_2_eq_2 effective_weight_def)




section \<open>Dense operations, entry by entry\<close>

lemma tab3_nth [simp]:
  "b < B \<Longrightarrow> i < N \<Longrightarrow> k < F \<Longrightarrow> tab3 B N F g ! b ! i ! k = g b i k"
  by (simp add: tab3_def)

lemma length_tab3 [simp]: "length (tab3 B N F g) = B"
  by (simp add: tab3_def)

lemma shape3_tab3 [simp]: "shape3 B N F (tab3 B N F g)"
  by (simp add: shape3_def tab3_def list_all_iff)

lemma tab3_cong:
  assumes "\<And>b i k. b < B \<Longrightarrow> i < N \<Longrightarrow> k < F \<Longrightarrow> g b i k = h b i k"
  shows "tab3 B N F g = tab3 B N F h"
  using assms by (simp add: tab3_def)

lemma shape3_D:
  assumes "shape3 B N F t"
  shows "length t = B" "b < B \<Longrightarrow> length (t ! b) = N"
    "b < B \<Longrightarrow> i < N \<Longrightarrow> length (t ! b ! i) = F"
proof -
  show l: "length t = B" using assms by (simp add: shape3_def)
  show n: "length (t ! b) = N" if "b < B"
    using assms that l nth_mem[of b t] by (auto simp: shape3_def list_all_iff)
  show "length (t ! b ! i) = F" if "b < B" "i < N"
  proof -
    have "t ! b \<in> set t" using that l by simp
    moreover have "t ! b ! i \<in> set (t ! b)" using that n by simp
    ultimately show ?thesis using assms by (auto simp: shape3_def list_all_iff)
  qed
qed

lemma map_upt_nth: "length xs = n \<Longrightarrow> map f xs = map (\<lambda>i. f (xs ! i)) [0..<n]"
  by (rule nth_equalityI) simp_all

lemma map2_upt_nth:
  "length xs = n \<Longrightarrow> length ys = n \<Longrightarrow> map2 f xs ys = map (\<lambda>i. f (xs ! i) (ys ! i)) [0..<n]"
  by (rule nth_equalityI) simp_all

lemma map_upt_cong: "(\<And>i. i < n \<Longrightarrow> f i = g i) \<Longrightarrow> map f [0..<n] = map g [0..<n]"
  by simp

lemma shape3_eq_tab3:
  assumes "shape3 B N F t"
  shows "t = tab3 B N F (\<lambda>b i k. t ! b ! i ! k)"
proof -
  have "t = map (\<lambda>b. t ! b) [0..<B]"
    using map_upt_nth[of t B "\<lambda>m. m"] shape3_D(1)[OF assms] by simp
  also have "\<dots> = map (\<lambda>b. map (\<lambda>i. t ! b ! i) [0..<N]) [0..<B]"
  proof (intro map_upt_cong)
    fix b assume "b < B"
    then show "t ! b = map (\<lambda>i. t ! b ! i) [0..<N]"
      using map_upt_nth[of "t ! b" N "\<lambda>m. m"] shape3_D(2)[OF assms] by simp
  qed
  also have "\<dots> = tab3 B N F (\<lambda>b i k. t ! b ! i ! k)"
    unfolding tab3_def
  proof (intro map_upt_cong)
    fix b i assume "b < B" "i < N"
    then show "t ! b ! i = map (\<lambda>k. t ! b ! i ! k) [0..<F]"
      using map_upt_nth[of "t ! b ! i" F "\<lambda>m. m"] shape3_D(3)[OF assms] by simp
  qed
  finally show ?thesis .
qed

lemma tab3_eqI:
  assumes "shape3 B N F t" "\<And>b i k. b < B \<Longrightarrow> i < N \<Longrightarrow> k < F \<Longrightarrow> t ! b ! i ! k = g b i k"
  shows "t = tab3 B N F g"
  using shape3_eq_tab3[OF assms(1)] tab3_cong[of B N F "\<lambda>b i k. t ! b ! i ! k" g] assms(2)
  by simp

lemma shape3_size_node:
  assumes "shape3 B N F t" "0 < B"
  shows "size_node t = N"
  using assms by (cases t) (auto simp: shape3_def size_node_def)

text \<open>Each dense operation, entry by entry.\<close>

lemma matmul_tab3:
  assumes "shape3 B N F T"
  shows "matmul T W p = project T W N F p"
proof -
  have "matmul T W p = map (\<lambda>b. mm p (T ! b) W) [0..<B]"
    unfolding matmul_def using shape3_D(1)[OF assms] by (rule map_upt_nth)
  also have "\<dots> = tab3 B N p (\<lambda>b i c. \<Sum>k\<leftarrow>[0..<F]. T ! b ! i ! k * W ! k ! c)"
    unfolding tab3_def
  proof (intro map_upt_cong)
    fix b assume b: "b < B"
    have "mm p (T ! b) W
        = map (\<lambda>i. map (\<lambda>c. \<Sum>j\<leftarrow>[0..<length (T ! b ! i)]. T ! b ! i ! j * W ! j ! c) [0..<p]) [0..<N]"
      unfolding mm_def using shape3_D(2)[OF assms b] by (rule map_upt_nth)
    also have "\<dots> = map (\<lambda>i. map (\<lambda>c. \<Sum>k\<leftarrow>[0..<F]. T ! b ! i ! k * W ! k ! c) [0..<p]) [0..<N]"
      using shape3_D(3)[OF assms b] by (intro map_upt_cong) simp
    finally show "mm p (T ! b) W
        = map (\<lambda>i. map (\<lambda>c. \<Sum>k\<leftarrow>[0..<F]. T ! b ! i ! k * W ! k ! c) [0..<p]) [0..<N]" .
  qed
  finally show ?thesis
    using shape3_D(1)[OF assms] by (simp add: project_def)
qed

lemma tadd_tab3:
  assumes "shape3 B N F s" "shape3 B N F t"
  shows "tadd s t = tab3 B N F (\<lambda>b i k. s ! b ! i ! k + t ! b ! i ! k)"
proof -
  have "tadd s t = map (\<lambda>b. map2 (map2 (+)) (s ! b) (t ! b)) [0..<B]"
    unfolding tadd_def using shape3_D(1)[OF assms(1)] shape3_D(1)[OF assms(2)] by (rule map2_upt_nth)
  also have "\<dots> = tab3 B N F (\<lambda>b i k. s ! b ! i ! k + t ! b ! i ! k)"
    unfolding tab3_def
  proof (intro map_upt_cong)
    fix b assume b: "b < B"
    have "map2 (map2 (+)) (s ! b) (t ! b) = map (\<lambda>i. map2 (+) (s ! b ! i) (t ! b ! i)) [0..<N]"
      using shape3_D(2)[OF assms(1) b] shape3_D(2)[OF assms(2) b] by (rule map2_upt_nth)
    also have "\<dots> = map (\<lambda>i. map (\<lambda>k. s ! b ! i ! k + t ! b ! i ! k) [0..<F]) [0..<N]"
      using shape3_D(3)[OF assms(1) b] shape3_D(3)[OF assms(2) b]
      by (intro map_upt_cong) (simp add: map2_upt_nth)
    finally show "map2 (map2 (+)) (s ! b) (t ! b)
        = map (\<lambda>i. map (\<lambda>k. s ! b ! i ! k + t ! b ! i ! k) [0..<F]) [0..<N]" .
  qed
  finally show ?thesis .
qed

lemma tsub_tscale_tab3:
  assumes "shape3 B N F s" "shape3 B N F t"
  shows "tsub (tscale a s) t = tab3 B N F (\<lambda>b i k. a * s ! b ! i ! k - t ! b ! i ! k)"
proof -
  have sc: "shape3 B N F (tscale a s)"
    using assms(1) by (auto simp: shape3_def tscale_def list_all_iff)
  have nth: "tscale a s ! b ! i ! k = a * s ! b ! i ! k" if "b < B" "i < N" "k < F" for b i k
    using that shape3_D[OF assms(1)] by (simp add: tscale_def)
  have "tsub (tscale a s) t = map (\<lambda>b. map2 (map2 (-)) (tscale a s ! b) (t ! b)) [0..<B]"
    unfolding tsub_def using shape3_D(1)[OF sc] shape3_D(1)[OF assms(2)] by (rule map2_upt_nth)
  also have "\<dots> = tab3 B N F (\<lambda>b i k. a * s ! b ! i ! k - t ! b ! i ! k)"
    unfolding tab3_def
  proof (intro map_upt_cong)
    fix b assume b: "b < B"
    have "map2 (map2 (-)) (tscale a s ! b) (t ! b)
        = map (\<lambda>i. map2 (-) (tscale a s ! b ! i) (t ! b ! i)) [0..<N]"
      using shape3_D(2)[OF sc b] shape3_D(2)[OF assms(2) b] by (rule map2_upt_nth)
    also have "\<dots> = map (\<lambda>i. map (\<lambda>k. a * s ! b ! i ! k - t ! b ! i ! k) [0..<F]) [0..<N]"
      using shape3_D(3)[OF sc b] shape3_D(3)[OF assms(2) b] nth[OF b]
      by (intro map_upt_cong) (simp add: map2_upt_nth)
    finally show "map2 (map2 (-)) (tscale a s ! b) (t ! b)
        = map (\<lambda>i. map (\<lambda>k. a * s ! b ! i ! k - t ! b ! i ! k) [0..<F]) [0..<N]" .
  qed
  finally show ?thesis .
qed

lemma add_bias_tab3:
  assumes "shape3 B N F t" "length bv = F"
  shows "add_bias t bv = tab3 B N F (\<lambda>b i k. t ! b ! i ! k + bv ! k)"
proof -
  have "add_bias t bv = map (\<lambda>b. map (\<lambda>r. map2 (+) r bv) (t ! b)) [0..<B]"
    unfolding add_bias_def using shape3_D(1)[OF assms(1)] by (rule map_upt_nth)
  also have "\<dots> = tab3 B N F (\<lambda>b i k. t ! b ! i ! k + bv ! k)"
    unfolding tab3_def
  proof (intro map_upt_cong)
    fix b assume b: "b < B"
    have "map (\<lambda>r. map2 (+) r bv) (t ! b) = map (\<lambda>i. map2 (+) (t ! b ! i) bv) [0..<N]"
      using shape3_D(2)[OF assms(1) b] by (rule map_upt_nth)
    also have "\<dots> = map (\<lambda>i. map (\<lambda>k. t ! b ! i ! k + bv ! k) [0..<F]) [0..<N]"
      using shape3_D(3)[OF assms(1) b] assms(2)
      by (intro map_upt_cong) (simp add: map2_upt_nth)
    finally show "map (\<lambda>r. map2 (+) r bv) (t ! b)
        = map (\<lambda>i. map (\<lambda>k. t ! b ! i ! k + bv ! k) [0..<F]) [0..<N]" .
  qed
  finally show ?thesis .
qed

lemma sum_list_map_cong:
  "(\<And>x. x \<in> set xs \<Longrightarrow> f x = g x) \<Longrightarrow> sum_list (map f xs) = sum_list (map g xs)"
  by (rule arg_cong[where f = sum_list]) simp

lemma bmm_tab3:
  assumes S: "shape3 B N M S" and T: "length T = B"
  shows "bmm S T p = tab3 B N p (\<lambda>b i c. \<Sum>j\<leftarrow>[0..<M]. S ! b ! i ! j * T ! b ! j ! c)"
proof -
  have "bmm S T p = map (\<lambda>b. mm p (S ! b) (T ! b)) [0..<B]"
    unfolding bmm_def using shape3_D(1)[OF S] T by (rule map2_upt_nth)
  also have "\<dots> = tab3 B N p (\<lambda>b i c. \<Sum>j\<leftarrow>[0..<M]. S ! b ! i ! j * T ! b ! j ! c)"
    unfolding tab3_def
  proof (intro map_upt_cong)
    fix b assume b: "b < B"
    have "mm p (S ! b) (T ! b)
        = map (\<lambda>i. map (\<lambda>c. \<Sum>j\<leftarrow>[0..<length (S ! b ! i)]. S ! b ! i ! j * T ! b ! j ! c) [0..<p]) [0..<N]"
      unfolding mm_def using shape3_D(2)[OF S b] by (rule map_upt_nth)
    also have "\<dots> = map (\<lambda>i. map (\<lambda>c. \<Sum>j\<leftarrow>[0..<M]. S ! b ! i ! j * T ! b ! j ! c) [0..<p]) [0..<N]"
      using shape3_D(3)[OF S b] by (intro map_upt_cong) simp
    finally show "mm p (S ! b) (T ! b)
        = map (\<lambda>i. map (\<lambda>c. \<Sum>j\<leftarrow>[0..<M]. S ! b ! i ! j * T ! b ! j ! c) [0..<p]) [0..<N]" .
  qed
  finally show ?thesis .
qed

lemma eye_mul_tab3:
  assumes "shape3 B N N att"
  shows "eye_mul N att = tab3 B N N (masked_attention att)"
proof -
  have "eye_mul N att = map (\<lambda>b. map2 (\<lambda>er ar. map2 (*) er ar) (eye N) (att ! b)) [0..<B]"
    unfolding eye_mul_def using shape3_D(1)[OF assms] by (rule map_upt_nth)
  also have "\<dots> = tab3 B N N (masked_attention att)"
    unfolding tab3_def
  proof (intro map_upt_cong)
    fix b assume b: "b < B"
    have "map2 (\<lambda>er ar. map2 (*) er ar) (eye N) (att ! b)
        = map (\<lambda>i. map2 (*) (eye N ! i) (att ! b ! i)) [0..<N]"
      using shape3_D(2)[OF assms b] by (intro map2_upt_nth) (simp_all add: eye_def)
    also have "\<dots> = map (\<lambda>i. map (\<lambda>j. masked_attention att b i j) [0..<N]) [0..<N]"
    proof (intro map_upt_cong)
      fix i assume i: "i < N"
      have "map2 (*) (eye N ! i) (att ! b ! i)
          = map (\<lambda>j. eye N ! i ! j * att ! b ! i ! j) [0..<N]"
        using shape3_D(3)[OF assms b i] i by (intro map2_upt_nth) (simp_all add: eye_def)
      also have "\<dots> = map (\<lambda>j. masked_attention att b i j) [0..<N]"
        using i by (intro map_upt_cong) (simp add: eye_def masked_attention_def)
      finally show "map2 (*) (eye N ! i) (att ! b ! i)
          = map (\<lambda>j. masked_attention att b i j) [0..<N]" .
    qed
    finally show "map2 (\<lambda>er ar. map2 (*) er ar) (eye N) (att ! b)
        = map (\<lambda>i. map (\<lambda>j. masked_attention att b i j) [0..<N]) [0..<N]" .
  qed
  finally show ?thesis .
qed

lemma permute021_tab3:
  assumes "shape3 B N M t"
  shows "permute021 M t = tab3 B M N (\<lambda>b j i. t ! b ! i ! j)"
proof -
  have "permute021 M t
      = map (\<lambda>b. map (\<lambda>j. map (\<lambda>i. t ! b ! i ! j) [0..<length (t ! b)]) [0..<M]) [0..<B]"
    unfolding permute021_def using shape3_D(1)[OF assms] by (rule map_upt_nth)
  also have "\<dots> = tab3 B M N (\<lambda>b j i. t ! b ! i ! j)"
    unfolding tab3_def using shape3_D(2)[OF assms] by (intro map_upt_cong) simp
  finally show ?thesis .
qed

lemma call_shapes_D:
  assumes "call_shapes_ok L x att"
  shows "shape3 (length x) (size_node x) (in_channels L) x"
    and "shape3 (length x) (size_node x) (size_node x) att"
  using assms by (auto simp: call_shapes_ok_def shape3_def)

lemma order0_closed:
  assumes "call_shapes_ok L x att"
  shows "bmm (permute021 (size_node x) (eye_mul (size_node x) att)) x (in_channels L)
       = order0_term att x (in_channels L)"
proof -
  let ?B = "length x" and ?N = "size_node x" and ?F = "in_channels L"
  note sh = call_shapes_D[OF assms]
  have e: "eye_mul ?N att = tab3 ?B ?N ?N (masked_attention att)"
    by (rule eye_mul_tab3[OF sh(2)])
  have p: "permute021 ?N (eye_mul ?N att)
      = tab3 ?B ?N ?N (\<lambda>b j i. tab3 ?B ?N ?N (masked_attention att) ! b ! i ! j)"
    unfolding e by (rule permute021_tab3) simp
  have "bmm (permute021 ?N (eye_mul ?N att)) x ?F
      = tab3 ?B ?N ?F (\<lambda>b i c. \<Sum>j\<leftarrow>[0..<?N].
          tab3 ?B ?N ?N (\<lambda>b j i. tab3 ?B ?N ?N (masked_attention att) ! b ! i ! j) ! b ! i ! j
            * x ! b ! j ! c)"
    unfolding p by (rule bmm_tab3) simp_all
  also have "\<dots> = order0_term att x ?F"
    unfolding order0_term_def
    by (intro tab3_cong sum_list_map_cong) simp
  finally show ?thesis .
qed

lemma scatter_sum_tab3:
  assumes "length msg = B"
  shows "scatter_sum msg idx n f
       = tab3 B n f (\<lambda>b i k. \<Sum>e\<leftarrow>filter (\<lambda>e. idx ! e = i) [0..<length idx]. msg ! b ! e ! k)"
  unfolding scatter_sum_def tab3_def using assms by (rule map_upt_nth)

lemma propagate_closed:
  assumes T: "shape3 B N F T"
    and E: "\<forall>e \<in> set E. fst e < N \<and> snd e < N"
    and m: "\<And>b e k. b < B \<Longrightarrow> e < length E \<Longrightarrow> k < F \<Longrightarrow>
              message (map (\<lambda>xb. map (\<lambda>e. xb ! fst e) (map (\<lambda>e. (snd e, fst e)) E)) T) nrm ! b ! e ! k
                = w b e * T ! b ! snd (E ! e) ! k"
    and l: "length (message (map (\<lambda>xb. map (\<lambda>e. xb ! fst e) (map (\<lambda>e. (snd e, fst e)) E)) T) nrm) = B"
  shows "propagate (map (\<lambda>e. (snd e, fst e)) E) T nrm N F = reversed_propagate E w T N F"
proof -
  let ?msg = "message (map (\<lambda>xb. map (\<lambda>e. xb ! fst e) (map (\<lambda>e. (snd e, fst e)) E)) T) nrm"
  let ?idx = "map snd (map (\<lambda>e. (snd e, fst e)) E)"
  have idx: "length ?idx = length E" "\<And>e. e < length E \<Longrightarrow> ?idx ! e = fst (E ! e)"
    by simp_all
  have "propagate (map (\<lambda>e. (snd e, fst e)) E) T nrm N F
      = tab3 B N F (\<lambda>b i k. \<Sum>e\<leftarrow>filter (\<lambda>e. ?idx ! e = i) [0..<length ?idx]. ?msg ! b ! e ! k)"
    unfolding propagate_def Let_def by (rule scatter_sum_tab3[OF l])
  also have "\<dots> = reversed_propagate E w T N F"
    unfolding reversed_propagate_def shape3_D(1)[OF T]
  proof (intro tab3_cong)
    fix b i k assume b: "b < B" and k: "k < F"
    have f: "filter (\<lambda>e. ?idx ! e = i) [0..<length ?idx] = filter (\<lambda>e. fst (E ! e) = i) [0..<length E]"
      unfolding idx(1) by (intro filter_cong refl) (simp add: idx(2))
    show "(\<Sum>e\<leftarrow>filter (\<lambda>e. ?idx ! e = i) [0..<length ?idx]. ?msg ! b ! e ! k)
        = (\<Sum>e\<leftarrow>filter (\<lambda>e. fst (E ! e) = i) [0..<length E]. w b e * T ! b ! snd (E ! e) ! k)"
      unfolding f using m[OF b _ k] by (intro sum_list_map_cong) simp
  qed
  finally show ?thesis .
qed

lemma message_Norm1_nth:
  assumes T: "shape3 B N F T" and E: "\<forall>e \<in> set E. fst e < N \<and> snd e < N"
    and n: "length nrm = length E" and b: "b < B" and e: "e < length E" and k: "k < F"
  shows "message (map (\<lambda>xb. map (\<lambda>e. xb ! fst e) (map (\<lambda>e. (snd e, fst e)) E)) T) (Norm1 nrm) ! b ! e ! k
       = nrm ! e * T ! b ! snd (E ! e) ! k"
proof -
  have "snd (E ! e) < N" using E e by simp
  then have "length (T ! b ! snd (E ! e)) = F"
    using shape3_D(3)[OF T b] by simp
  then show ?thesis
    using shape3_D(1)[OF T] b e k n by (simp add: message_def)
qed

lemma message_Norm2_nth:
  assumes T: "shape3 B N F T" and E: "\<forall>e \<in> set E. fst e < N \<and> snd e < N"
    and A: "length A = B" "\<And>b. b < B \<Longrightarrow> length (A ! b) = length E"
    and b: "b < B" and e: "e < length E" and k: "k < F"
  shows "message (map (\<lambda>xb. map (\<lambda>e. xb ! fst e) (map (\<lambda>e. (snd e, fst e)) E)) T) (Norm2 A) ! b ! e ! k
       = A ! b ! e * T ! b ! snd (E ! e) ! k"
proof -
  have "snd (E ! e) < N" using E e by simp
  then have "length (T ! b ! snd (E ! e)) = F"
    using shape3_D(3)[OF T b] by simp
  then show ?thesis
    using shape3_D(1)[OF T] b e k A(1) A(2)[OF b] by (simp add: message_def)
qed

lemma propagate_Norm1:
  assumes T: "shape3 B N F T" and E: "\<forall>e \<in> set E. fst e < N \<and> snd e < N"
    and n: "length nrm = length E"
  shows "propagate (map (\<lambda>e. (snd e, fst e)) E) T (Norm1 nrm) N F
       = reversed_propagate E (\<lambda>b e. nrm ! e) T N F"
  using message_Norm1_nth[OF T E n] shape3_D(1)[OF T]
  by (intro propagate_closed[OF T E]) (simp_all add: message_def)

lemma propagate_Norm2:
  assumes T: "shape3 B N F T" and E: "\<forall>e \<in> set E. fst e < N \<and> snd e < N"
    and A: "length A = B" "\<And>b. b < B \<Longrightarrow> length (A ! b) = length E"
  shows "propagate (map (\<lambda>e. (snd e, fst e)) E) T (Norm2 A) N F
       = reversed_propagate E (\<lambda>b e. A ! b ! e) T N F"
  using message_Norm2_nth[OF T E A] shape3_D(1)[OF T] A(1)
  by (intro propagate_closed[OF T E]) (simp_all add: message_def)

section \<open>The closed form of forward\<close>

declare cheb_term.simps [simp del]

lemma shape3_cheb_term [simp]:
  "shape3 (length x) (size_node x) F (cheb_term E nrm att x F k)"
proof (cases k)
  case 0
  then show ?thesis by (simp add: cheb_term.simps order0_term_def)
next
  case (Suc j)
  then show ?thesis
    by (cases j) (simp_all add: cheb_term.simps order0_term_def reversed_propagate_def Let_def)
qed

lemma shape3_cheb_sum [simp]:
  "shape3 (length x) (size_node x) (out_channels L) (cheb_sum L E nrm att x m)"
  by (simp add: cheb_sum_def)

lemma length_project [simp]: "length (project T W N F p) = length T"
  by (simp add: project_def)

lemma shape3_project: "length T = B \<Longrightarrow> shape3 B N p (project T W N F p)"
  by (auto simp: project_def)

lemma cheb_sum_step:
  "tadd (cheb_sum L E nrm att x m)
        (matmul (cheb_term E nrm att x (in_channels L) m) (weight L ! m) (out_channels L))
     = cheb_sum L E nrm att x (Suc m)"
proof -
  let ?B = "length x" and ?N = "size_node x" and ?F = "in_channels L" and ?p = "out_channels L"
  let ?P = "project (cheb_term E nrm att x ?F m) (weight L ! m) ?N ?F ?p"
  have mt: "matmul (cheb_term E nrm att x ?F m) (weight L ! m) ?p = ?P"
    by (rule matmul_tab3[OF shape3_cheb_term])
  have sp: "shape3 ?B ?N ?p ?P"
    using shape3_D(1)[OF shape3_cheb_term] by (intro shape3_project)
  have "tadd (cheb_sum L E nrm att x m) ?P
      = tab3 ?B ?N ?p (\<lambda>b i c. cheb_sum L E nrm att x m ! b ! i ! c + ?P ! b ! i ! c)"
    by (rule tadd_tab3[OF shape3_cheb_sum sp])
  also have "\<dots> = cheb_sum L E nrm att x (Suc m)"
    unfolding cheb_sum_def[of L E nrm att x "Suc m"]
    by (intro tab3_cong) (simp add: cheb_sum_def)
  finally show ?thesis unfolding mt .
qed

lemma cheb_sum_one:
  "matmul (cheb_term E nrm att x (in_channels L) 0) (weight L ! 0) (out_channels L)
     = cheb_sum L E nrm att x (Suc 0)"
proof -
  let ?B = "length x" and ?N = "size_node x" and ?F = "in_channels L" and ?p = "out_channels L"
  let ?P = "project (cheb_term E nrm att x ?F 0) (weight L ! 0) ?N ?F ?p"
  have mt: "matmul (cheb_term E nrm att x ?F 0) (weight L ! 0) ?p = ?P"
    by (rule matmul_tab3[OF shape3_cheb_term])
  have sp: "shape3 ?B ?N ?p ?P"
    using shape3_D(1)[OF shape3_cheb_term] by (intro shape3_project)
  have "?P = tab3 ?B ?N ?p (\<lambda>b i c. ?P ! b ! i ! c)"
    by (rule shape3_eq_tab3[OF sp])
  also have "\<dots> = cheb_sum L E nrm att x (Suc 0)"
    unfolding cheb_sum_def by (intro tab3_cong) simp
  finally show ?thesis unfolding mt .
qed

lemma cheb_loop_closed:
  assumes E: "\<forall>e \<in> set E. fst e < size_node x \<and> snd e < size_node x"
    and n: "length nrm = length E"
    and Ws: "Ws = drop (Suc (Suc k)) (weight L)" and k: "Suc (Suc k) \<le> length (weight L)"
  shows "cheb_loop (map (\<lambda>e. (snd e, fst e)) E) nrm (size_node x) (in_channels L) (out_channels L) Ws
           (cheb_term E nrm att x (in_channels L) k)
           (cheb_term E nrm att x (in_channels L) (Suc k))
           (cheb_sum L E nrm att x (Suc (Suc k)))
         = cheb_sum L E nrm att x (length (weight L))"
  using Ws k
proof (induction Ws arbitrary: k)
  case Nil
  then have "Suc (Suc k) = length (weight L)" by simp
  then show ?case by simp
next
  case (Cons Wk Ws)
  let ?F = "in_channels L"
  from Cons.prems have lt: "Suc (Suc k) < length (weight L)"
    by (metis drop_eq_Nil2 linorder_not_less list.distinct(1))
  with Cons.prems have Wk: "Wk = weight L ! Suc (Suc k)" and Ws': "Ws = drop (Suc (Suc (Suc k))) (weight L)"
    by (metis Cons_nth_drop_Suc list.inject)+
  have P: "propagate (map (\<lambda>e. (snd e, fst e)) E) (cheb_term E nrm att x ?F (Suc k)) (Norm1 nrm) (size_node x) ?F
      = reversed_propagate E (\<lambda>b e. nrm ! e) (cheb_term E nrm att x ?F (Suc k)) (size_node x) ?F"
    by (rule propagate_Norm1[OF shape3_cheb_term E n])
  have sP: "shape3 (length x) (size_node x) ?F
      (reversed_propagate E (\<lambda>b e. nrm ! e) (cheb_term E nrm att x ?F (Suc k)) (size_node x) ?F)"
    using shape3_D(1)[OF shape3_cheb_term[of x ?F E nrm att "Suc k"]]
    by (simp add: reversed_propagate_def)
  have T2: "tsub (tscale (Fin 2)
        (reversed_propagate E (\<lambda>b e. nrm ! e) (cheb_term E nrm att x ?F (Suc k)) (size_node x) ?F))
        (cheb_term E nrm att x ?F k)
      = cheb_term E nrm att x ?F (Suc (Suc k))"
    by (simp add: tsub_tscale_tab3[OF sP shape3_cheb_term] cheb_term.simps(3) Let_def)
  show ?case
    using Cons.IH[OF Ws'] lt
    by (simp add: P T2 Wk Let_def cheb_sum_step)
qed

lemma Att_norm_nth:
  assumes "length att = B" "length nrm = length E" "b < B" "e < length E"
  shows "map (\<lambda>ab. map2 (*) nrm ab) (map (\<lambda>ab. map (\<lambda>e. ab ! fst e ! snd e) E) att) ! b ! e
       = nrm ! e * att ! b ! fst (E ! e) ! snd (E ! e)"
  using assms by simp

lemma forward_body_closed:
  assumes L: "layer_ok L" and sh: "call_shapes_ok L x att"
    and E: "\<forall>e \<in> set E. fst e < size_node x \<and> snd e < size_node x"
    and n: "length nrm = length E"
  shows "forward_body L x att E nrm (map (\<lambda>ab. map (\<lambda>e. ab ! fst e ! snd e) E) att)
       = cheb_output L E nrm att x"
proof -
  let ?B = "length x" and ?N = "size_node x" and ?F = "in_channels L" and ?p = "out_channels L"
  let ?A = "map (\<lambda>ab. map2 (*) nrm ab) (map (\<lambda>ab. map (\<lambda>e. ab ! fst e ! snd e) E) att)"
  let ?ET = "map (\<lambda>e. (snd e, fst e)) E"
  let ?T = "cheb_term E nrm att x ?F"
  have latt: "length att = ?B" using sh by (simp add: call_shapes_ok_def)
  have T0: "bmm (permute021 ?N (eye_mul ?N att)) x ?F = ?T 0"
    using order0_closed[OF sh] by (simp add: cheb_term.simps)
  have out0: "matmul (?T 0) (weight L ! 0) ?p = cheb_sum L E nrm att x (Suc 0)"
    by (rule cheb_sum_one)
  have T1: "propagate ?ET (?T 0) (Norm2 ?A) ?N ?F = ?T (Suc 0)"
  proof -
    have "propagate ?ET (?T 0) (Norm2 ?A) ?N ?F
        = reversed_propagate E (\<lambda>b e. ?A ! b ! e) (?T 0) ?N ?F"
      using latt n by (intro propagate_Norm2[OF shape3_cheb_term E]) simp_all
    also have "\<dots> = ?T (Suc 0)"
      unfolding cheb_term.simps(2) reversed_propagate_def
      using latt n
      by (intro tab3_cong sum_list_map_cong) (simp add: cheb_term.simps(1) order0_term_def)
    finally show ?thesis .
  qed
  have body: "(if 1 < length (weight L) then
               cheb_loop ?ET nrm ?N ?F ?p (drop 2 (weight L)) (?T 0)
                 (propagate ?ET (?T 0) (Norm2 ?A) ?N ?F)
                 (tadd (cheb_sum L E nrm att x (Suc 0))
                    (matmul (propagate ?ET (?T 0) (Norm2 ?A) ?N ?F) (weight L ! 1) ?p))
             else cheb_sum L E nrm att x (Suc 0))
        = cheb_sum L E nrm att x (length (weight L))"
  proof (cases "1 < length (weight L)")
    case True
    then have k: "Suc (Suc 0) \<le> length (weight L)" by simp
    have st: "tadd (cheb_sum L E nrm att x (Suc 0)) (matmul (?T (Suc 0)) (weight L ! 1) ?p)
        = cheb_sum L E nrm att x (Suc (Suc 0))"
      using cheb_sum_step[of L E nrm att x "Suc 0"] by simp
    have lp: "cheb_loop ?ET nrm ?N ?F ?p (drop 2 (weight L)) (?T 0) (?T (Suc 0))
          (cheb_sum L E nrm att x (Suc (Suc 0)))
        = cheb_sum L E nrm att x (length (weight L))"
      using cheb_loop_closed[OF E n _ k, of "drop 2 (weight L)" att]
      by (simp add: numeral_2_eq_2)
    show ?thesis
      unfolding T1 st lp using True by (simp only: if_True)
  next
    case False
    with L have "length (weight L) = Suc 0" by (cases "weight L") (auto simp: layer_ok_def)
    with False show ?thesis by simp
  qed
  have "forward_body L x att E nrm (map (\<lambda>ab. map (\<lambda>e. ab ! fst e ! snd e) E) att)
      = (case bias L of None \<Rightarrow> cheb_sum L E nrm att x (length (weight L))
         | Some b \<Rightarrow> add_bias (cheb_sum L E nrm att x (length (weight L))) b)"
    unfolding forward_body_def Let_def T0 out0 body by (rule refl)
  also have "\<dots> = cheb_output L E nrm att x"
  proof (cases "bias L")
    case None
    then show ?thesis by (simp add: cheb_output_def)
  next
    case (Some bv)
    with L have "length bv = ?p" by (simp add: layer_ok_def)
    with Some show ?thesis
      by (simp add: cheb_output_def Let_def add_bias_tab3[OF shape3_cheb_sum])
  qed
  finally show ?thesis .
qed

lemma forward_closed:
  assumes ok: "call_ok L x ei att ew batch lambda_max0"
  shows "\<exists>nrm. ChebConvAttention_norm ei (size_node x) ew (normalization L)
                 (default_lambda lambda_max0) batch
               = Inr (normalized_edges ei (size_node x), nrm) \<and>
             length nrm = length (normalized_edges ei (size_node x)) \<and>
             ChebConvAttention_forward L x ei att ew batch lambda_max0
               = Inr (cheb_output L (normalized_edges ei (size_node x)) nrm att x)"
proof -
  let ?E = "normalized_edges ei (size_node x)"
  obtain nrm where n: "ChebConvAttention_norm ei (size_node x) ew (normalization L)
                 (default_lambda lambda_max0) batch = Inr (?E, nrm)"
    and len: "length nrm = length ?E"
    and f: "ChebConvAttention_forward L x ei att ew batch lambda_max0
       = Inr (forward_body L x att ?E nrm (map (\<lambda>ab. map (\<lambda>e. ab ! fst e ! snd e) ?E) att))"
    using forward_ok[OF ok] by blast
  from ok have L: "layer_ok L" and sh: "call_shapes_ok L x att" and g: "graph_ok ei ew (size_node x)"
    by (simp_all add: call_ok_def)
  have "forward_body L x att ?E nrm (map (\<lambda>ab. map (\<lambda>e. ab ! fst e ! snd e) ?E) att)
      = cheb_output L ?E nrm att x"
    by (rule forward_body_closed[OF L sh normalized_edges_range[OF g] len])
  with n len f show ?thesis by auto
qed

text \<open>
  C1. For a layer with \<open>K \<ge> 2\<close> a well-formed call returns \<open>cheb_output\<close> on the
  normalized edge list: \<open>T\<^sub>1\<close> is \<open>T\<^sub>0\<close> propagated over the reversed edges with the
  weights \<open>norm[e] * spatial_attention[b, row e, col e]\<close>, added into each target node;
  every later \<open>T\<^sub>k\<close> is \<open>2 P - T\<^sub>k\<^sub>-\<^sub>2\<close> with \<open>P\<close> the propagation of \<open>T\<^sub>k\<^sub>-\<^sub>1\<close> with the
  plain weights \<open>norm[e]\<close>; the output is the sum of the \<open>T\<^sub>k @ W[k]\<close> plus the bias.
\<close>

theorem forward_chebyshev_recursion:
  assumes "call_ok L x ei att ew batch lambda_max0" and "2 \<le> length (weight L)"
  shows "\<exists>nrm. ChebConvAttention_norm ei (size_node x) ew (normalization L)
                 (default_lambda lambda_max0) batch
               = Inr (normalized_edges ei (size_node x), nrm) \<and>
             ChebConvAttention_forward L x ei att ew batch lambda_max0
               = Inr (cheb_output L (normalized_edges ei (size_node x)) nrm att x)"
  using forward_closed[OF assms(1)] by blast

lemma call_ok_k3: "call_ok layer_k3 x41 ring4 att4 None None None"
  by (simp add: call_ok_def layer_ok_def call_shapes_ok_def graph_ok_def lambda_ok_def
      default_lambda_def layer_k3_def x41_def att4_def ring4_def size_node_def)

theorem forward_chebyshev_recursion_witness:
  "call_ok layer_k3 x41 ring4 att4 None None None \<and> 2 \<le> length (weight layer_k3) \<and>
   (\<exists>nrm. ChebConvAttention_norm ring4 (size_node x41) None (normalization layer_k3)
                 (default_lambda None) None
               = Inr (normalized_edges ring4 (size_node x41), nrm) \<and>
             ChebConvAttention_forward layer_k3 x41 ring4 att4 None None None
               = Inr (cheb_output layer_k3 (normalized_edges ring4 (size_node x41)) nrm att4 x41))"
proof -
  have k: "2 \<le> length (weight layer_k3)" by (simp add: layer_k3_def)
  from forward_chebyshev_recursion[OF call_ok_k3 k] call_ok_k3 k show ?thesis by blast
qed

lemma cheb_output_order0:
  assumes "length (weight L) = 1"
  shows "cheb_output L E nrm att x = order0_output L x att"
proof -
  let ?P = "project (cheb_term E nrm att x (in_channels L) 0) (weight L ! 0)
              (size_node x) (in_channels L) (out_channels L)"
  have sp: "shape3 (length x) (size_node x) (out_channels L) ?P"
    using shape3_D(1)[OF shape3_cheb_term] by (intro shape3_project)
  have "cheb_sum L E nrm att x (Suc 0) = tab3 (length x) (size_node x) (out_channels L) (\<lambda>b i c. ?P ! b ! i ! c)"
    unfolding cheb_sum_def by (intro tab3_cong) simp
  also have "\<dots> = ?P" by (rule shape3_eq_tab3[OF sp, symmetric])
  finally show ?thesis
    using assms by (simp add: cheb_output_def order0_output_def cheb_term.simps(1))
qed

lemma forward_order0:
  assumes "call_ok L x ei att ew batch lambda_max0" "length (weight L) = 1"
  shows "ChebConvAttention_forward L x ei att ew batch lambda_max0 = Inr (order0_output L x att)"
  using forward_closed[OF assms(1)] cheb_output_order0[OF assms(2)] by auto

text \<open>
  C3. A layer with \<open>K = 1\<close> returns \<open>(I \<odot> spatial_attention)\<^sup>T @ x @ W[0]\<close> plus the
  bias, and the same tensor for any two graphs over the nodes of \<open>x\<close>, whatever their
  edges and weights.
\<close>

theorem forward_order0_independent_of_edges:
  assumes "length (weight L) = 1"
    and "call_ok L x ei att ew batch lambda_max0"
    and "call_ok L x ei' att ew' batch lambda_max0"
  shows "ChebConvAttention_forward L x ei att ew batch lambda_max0 = Inr (order0_output L x att) \<and>
         ChebConvAttention_forward L x ei' att ew' batch lambda_max0
           = ChebConvAttention_forward L x ei att ew batch lambda_max0"
  using forward_order0[OF assms(2) assms(1)] forward_order0[OF assms(3) assms(1)] by simp

lemma call_ok_empty: "call_ok layer_sym1 x41 [] att4 None None None"
  by (simp add: call_ok_def layer_ok_def call_shapes_ok_def graph_ok_def lambda_ok_def
      default_lambda_def layer_sym1_def x41_def att4_def size_node_def)

theorem forward_order0_independent_of_edges_witness:
  "length (weight layer_sym1) = 1 \<and>
   call_ok layer_sym1 x41 ring4 att4 None None None \<and>
   call_ok layer_sym1 x41 [(0, 2), (2, 0)] att4 (Some [Fin 3, Fin 7]) None None \<and>
   ChebConvAttention_forward layer_sym1 x41 ring4 att4 None None None
     = Inr (order0_output layer_sym1 x41 att4) \<and>
   ChebConvAttention_forward layer_sym1 x41 [(0, 2), (2, 0)] att4 (Some [Fin 3, Fin 7]) None None
     = ChebConvAttention_forward layer_sym1 x41 ring4 att4 None None None"
proof -
  have k: "length (weight layer_sym1) = 1" by (simp add: layer_sym1_def)
  have c: "call_ok layer_sym1 x41 [(0, 2), (2, 0)] att4 (Some [Fin 3, Fin 7]) None None"
    by (simp add: call_ok_def layer_ok_def call_shapes_ok_def graph_ok_def lambda_ok_def
      default_lambda_def layer_sym1_def x41_def att4_def size_node_def)
  from forward_order0_independent_of_edges[OF k call_ok_ring4 c] k call_ok_ring4 c
  show ?thesis by blast
qed

text \<open>
  C9. On a graph without edges a layer with \<open>K = 1\<close> succeeds: the normalization returns
  the loops of the nodes, and the output is the order-0 term (plus the bias).
\<close>

theorem forward_isolated_nodes:
  assumes "length (weight L) = 1" and "call_ok L x [] att ew batch lambda_max0"
  shows "(\<exists>nrm. ChebConvAttention_norm [] (size_node x) ew (normalization L)
                  (default_lambda lambda_max0) batch
                = Inr (loop_index (size_node x) @ loop_index (size_node x), nrm)) \<and>
         ChebConvAttention_forward L x [] att ew batch lambda_max0 = Inr (order0_output L x att)"
  using forward_closed[OF assms(2)] forward_order0[OF assms(2) assms(1)]
  by (auto simp: normalized_edges_def nonloops_def)

theorem forward_isolated_nodes_witness:
  "length (weight layer_sym1) = 1 \<and> call_ok layer_sym1 x41 [] att4 None None None \<and>
   (\<exists>nrm. ChebConvAttention_norm [] (size_node x41) None (normalization layer_sym1)
                  (default_lambda None) None
                = Inr (loop_index (size_node x41) @ loop_index (size_node x41), nrm)) \<and>
   ChebConvAttention_forward layer_sym1 x41 [] att4 None None None
     = Inr (order0_output layer_sym1 x41 att4)"
proof -
  have k: "length (weight layer_sym1) = 1" by (simp add: layer_sym1_def)
  from forward_isolated_nodes[OF k call_ok_empty] k call_ok_empty show ?thesis by blast
qed

section \<open>A zero weight slice\<close>

lemma sum_list_zeros:
  fixes f :: "'a \<Rightarrow> fval"
  shows "(\<And>v. v \<in> set xs \<Longrightarrow> f v = 0) \<Longrightarrow> sum_list (map f xs) = 0"
  by (induction xs) simp_all

lemma finite_times_zero: "finite_fval a \<Longrightarrow> a * (0::fval) = 0"
  by (cases a) (simp_all add: fval_defs)

lemma finite3_nth:
  assumes "finite3 t" "b < length t" "i < length (t ! b)" "k < length (t ! b ! i)"
  shows "finite_fval (t ! b ! i ! k)"
proof -
  have "t ! b \<in> set t" using assms(2) by simp
  moreover have "t ! b ! i \<in> set (t ! b)" using assms(3) by simp
  moreover have "t ! b ! i ! k \<in> set (t ! b ! i)" using assms(4) by simp
  ultimately show ?thesis using assms(1) by (auto simp: finite3_def list_all_iff)
qed

lemma cheb_sum_zero_slice:
  assumes fin: "finite3 (cheb_term E nrm att x (in_channels L) (length (weight L)))"
  shows "cheb_sum (L\<lparr>weight := weight L @ [zero_slice (in_channels L) (out_channels L)]\<rparr>) E nrm att x
           (Suc (length (weight L)))
       = cheb_sum L E nrm att x (length (weight L))"
proof -
  let ?B = "length x" and ?N = "size_node x" and ?F = "in_channels L" and ?p = "out_channels L"
  let ?K = "length (weight L)"
  let ?W = "weight L @ [zero_slice ?F ?p]"
  let ?T = "cheb_term E nrm att x ?F"
  note sT = shape3_cheb_term[of x ?F E nrm att ?K]
  have lhs: "cheb_sum (L\<lparr>weight := ?W\<rparr>) E nrm att x (Suc ?K)
      = tab3 ?B ?N ?p (\<lambda>b i c. \<Sum>k\<leftarrow>[0..<Suc ?K].
          project (?T k) (?W ! k) ?N ?F ?p ! b ! i ! c)"
    by (simp add: cheb_sum_def)
  show ?thesis
    unfolding lhs cheb_sum_def[of L]
  proof (intro tab3_cong)
    fix b i c assume b: "b < ?B" and i: "i < ?N" and c: "c < ?p"
    have zero: "project (?T ?K) (zero_slice ?F ?p) ?N ?F ?p ! b ! i ! c = 0"
    proof -
      have "project (?T ?K) (zero_slice ?F ?p) ?N ?F ?p ! b ! i ! c
          = (\<Sum>k\<leftarrow>[0..<?F]. ?T ?K ! b ! i ! k * zero_slice ?F ?p ! k ! c)"
        using b i c shape3_D(1)[OF sT] by (simp add: project_def)
      also have "\<dots> = 0"
      proof (rule sum_list_zeros)
        fix k assume "k \<in> set [0..<?F]"
        then have k: "k < ?F" by simp
        have "finite_fval (?T ?K ! b ! i ! k)"
          using finite3_nth[OF fin] shape3_D[OF sT] b i k by simp
        then show "?T ?K ! b ! i ! k * zero_slice ?F ?p ! k ! c = 0"
          using k c by (simp add: zero_slice_def finite_times_zero)
      qed
      finally show ?thesis .
    qed
    have "(\<Sum>k\<leftarrow>[0..<Suc ?K]. project (?T k) (?W ! k) ?N ?F ?p ! b ! i ! c)
        = (\<Sum>k\<leftarrow>[0..<?K]. project (?T k) (?W ! k) ?N ?F ?p ! b ! i ! c)
          + project (?T ?K) (zero_slice ?F ?p) ?N ?F ?p ! b ! i ! c"
      by simp
    also have "(\<Sum>k\<leftarrow>[0..<?K]. project (?T k) (?W ! k) ?N ?F ?p ! b ! i ! c)
        = (\<Sum>k\<leftarrow>[0..<?K]. project (?T k) (weight L ! k) ?N ?F ?p ! b ! i ! c)"
      by (intro sum_list_map_cong) (simp add: nth_append)
    finally show "(\<Sum>k\<leftarrow>[0..<Suc ?K]. project (?T k) (?W ! k) ?N ?F ?p ! b ! i ! c)
        = (\<Sum>k\<leftarrow>[0..<?K]. project (?T k) (weight L ! k) ?N ?F ?p ! b ! i ! c)"
      using zero by simp
  qed
qed

lemma call_ok_zero_slice:
  assumes "call_ok L x ei att ew batch lambda_max0"
  shows "call_ok (L\<lparr>weight := weight L @ [zero_slice (in_channels L) (out_channels L)]\<rparr>)
           x ei att ew batch lambda_max0"
  using assms
  by (auto simp: call_ok_def layer_ok_def call_shapes_ok_def zero_slice_def list_all_iff
      split: option.splits)

text \<open>
  C8, as the code has it. Appending a zero slice \<open>W[K]\<close> to the weight of a layer of order
  \<open>K\<close> leaves the output of a well-formed call unchanged when the term \<open>T\<^sub>K\<close> of that call
  has only finite entries: then \<open>T\<^sub>K @ W[K]\<close> is the zero tensor.
\<close>

theorem zero_slice_keeps_output:
  assumes ok: "call_ok L x ei att ew batch lambda_max0"
    and fin: "extra_term_finite L x ei att ew batch lambda_max0"
  shows "ChebConvAttention_forward
           (L\<lparr>weight := weight L @ [zero_slice (in_channels L) (out_channels L)]\<rparr>)
           x ei att ew batch lambda_max0
       = ChebConvAttention_forward L x ei att ew batch lambda_max0"
proof -
  let ?L' = "L\<lparr>weight := weight L @ [zero_slice (in_channels L) (out_channels L)]\<rparr>"
  let ?E = "normalized_edges ei (size_node x)"
  obtain nrm where n: "ChebConvAttention_norm ei (size_node x) ew (normalization L)
                 (default_lambda lambda_max0) batch = Inr (?E, nrm)"
    and f: "ChebConvAttention_forward L x ei att ew batch lambda_max0
               = Inr (cheb_output L ?E nrm att x)"
    using forward_closed[OF ok] by blast
  obtain nrm' where n': "ChebConvAttention_norm ei (size_node x) ew (normalization ?L')
                 (default_lambda lambda_max0) batch = Inr (?E, nrm')"
    and f': "ChebConvAttention_forward ?L' x ei att ew batch lambda_max0
               = Inr (cheb_output ?L' ?E nrm' att x)"
    using forward_closed[OF call_ok_zero_slice[OF ok]] by blast
  from n n' have eq: "nrm' = nrm" by simp
  from fin n have "finite3 (cheb_term ?E nrm att x (in_channels L) (length (weight L)))"
    by (simp add: extra_term_finite_def)
  then have "cheb_output ?L' ?E nrm att x = cheb_output L ?E nrm att x"
    using cheb_sum_zero_slice[of ?E nrm att x L]
    by (simp add: cheb_output_def Let_def split: option.splits)
  with f f' eq show ?thesis by simp
qed

lemmas eval_defs = ChebConvAttention_forward_def ChebConvAttention_norm_def remove_self_loops_def
  get_laplacian_def scatter_add_def masked_fill_inf_def add_self_loops_def loop_index_def
  scale_weights_def index_attention_def call_shapes_ok_def forward_body_def size_node_def
  size_last_def bmm_def mm_def matmul_def permute021_def eye_mul_def eye_def propagate_def
  message_def scatter_sum_def tadd_def tsub_def tscale_def add_bias_def

lemma forward_pair_zero_k1:
  "ChebConvAttention_forward layer_sym1 x21 pair_edges att2 None None (Some (Scalar (Fin 0)))
     = Inr [[[Fin (1 / 2)], [Fin (1 / 2)]]]"
  by (simp add: eval_defs layer_sym1_def x21_def pair_edges_def att2_def fval_defs numeral_2_eq_2)

lemma forward_pair_zero_k2:
  "ChebConvAttention_forward (layer_sym1\<lparr>weight := weight layer_sym1 @ [zero_slice 1 1]\<rparr>)
       x21 pair_edges att2 None None (Some (Scalar (Fin 0)))
     = Inr [[[NaN], [NaN]]]"
  by (simp add: eval_defs layer_sym1_def x21_def pair_edges_def att2_def fval_defs numeral_2_eq_2
      zero_slice_def Let_def)

lemma call_ok_pair: "call_ok layer_sym1 x21 pair_edges att2 None None None"
  by (simp add: call_ok_def layer_ok_def call_shapes_ok_def graph_ok_def lambda_ok_def
      default_lambda_def layer_sym1_def x21_def att2_def pair_edges_def size_node_def)

lemma extra_term_finite_pair: "extra_term_finite layer_sym1 x21 pair_edges att2 None None None"
  by (simp add: extra_term_finite_def default_lambda_def eval_defs layer_sym1_def x21_def
      pair_edges_def att2_def fval_defs numeral_2_eq_2 cheb_term.simps order0_term_def
      reversed_propagate_def tab3_def masked_attention_def finite3_def)

theorem zero_slice_keeps_output_witness:
  "call_ok layer_sym1 x21 pair_edges att2 None None None \<and>
   extra_term_finite layer_sym1 x21 pair_edges att2 None None None \<and>
   ChebConvAttention_forward
     (layer_sym1\<lparr>weight := weight layer_sym1
        @ [zero_slice (in_channels layer_sym1) (out_channels layer_sym1)]\<rparr>)
     x21 pair_edges att2 None None None
   = ChebConvAttention_forward layer_sym1 x21 pair_edges att2 None None None"
  using zero_slice_keeps_output[OF call_ok_pair extra_term_finite_pair] call_ok_pair
    extra_term_finite_pair by blast

text \<open>
  With \<open>lambda_max = 0\<close> the two edges carry the weight \<open>-inf\<close>, so \<open>T\<^sub>1\<close> is infinite and
  its product with the zero slice is NaN: the layer of order 2 returns NaN where the
  layer of order 1 returns \<open>1/2\<close>.
\<close>

theorem zero_slice_keeps_output_counterexample:
  "ChebConvAttention_forward layer_sym1 x21 pair_edges att2 None None (Some (Scalar (Fin 0)))
     = Inr [[[Fin (1 / 2)], [Fin (1 / 2)]]] \<and>
   ChebConvAttention_forward (layer_sym1\<lparr>weight := weight layer_sym1 @ [zero_slice 1 1]\<rparr>)
       x21 pair_edges att2 None None (Some (Scalar (Fin 0)))
     = Inr [[[NaN], [NaN]]]"
  using forward_pair_zero_k1 forward_pair_zero_k2 by simp

section \<open>The attention matrices are normalized along axis 1\<close>

lemma sum_list_exp_pos:
  fixes g :: "nat \<Rightarrow> real"
  assumes "0 < n"
  shows "0 < (\<Sum>i\<leftarrow>[0..<n]. exp (g i))"
  using assms
proof (induction n)
  case 0
  then show ?case by simp
next
  case (Suc n)
  have "0 \<le> (\<Sum>i\<leftarrow>[0..<n]. exp (g i))"
    by (rule sum_list_nonneg) auto
  then show ?case
    using exp_gt_zero[of "g n"] by (simp add: add_nonneg_pos)
qed

lemma softmax_dim1_column:
  assumes b: "b < length S" and rows: "\<forall>r \<in> set (S ! b). length r = p" and j: "j < p"
    and n: "0 < length (S ! b)"
  shows "column_sum (softmax_dim1 S) b j = 1"
proof -
  let ?m = "S ! b" and ?n = "length (S ! b)"
  let ?D = "\<Sum>i'\<leftarrow>[0..<?n]. exp (?m ! i' ! j)"
  have D: "0 < ?D" by (rule sum_list_exp_pos[OF n])
  have sb: "softmax_dim1 S ! b
      = map (\<lambda>i. map (\<lambda>j. exp (?m ! i ! j) / (\<Sum>i'\<leftarrow>[0..<?n]. exp (?m ! i' ! j)))
                        [0..<length (?m ! i)]) [0..<?n]"
    using b by (simp add: softmax_dim1_def)
  have len: "length (softmax_dim1 S ! b) = ?n"
    unfolding sb by simp
  have entry: "softmax_dim1 S ! b ! i ! j = exp (?m ! i ! j) / ?D" if "i < ?n" for i
  proof -
    have "?m ! i \<in> set ?m" using that by simp
    with rows have "length (?m ! i) = p" by blast
    with that j show ?thesis unfolding sb by simp
  qed
  have "column_sum (softmax_dim1 S) b j = (\<Sum>i\<leftarrow>[0..<?n]. exp (?m ! i ! j) / ?D)"
    unfolding column_sum_def len using entry by (intro sum_list_map_cong) simp
  also have "\<dots> = (\<Sum>i\<leftarrow>[0..<?n]. exp (?m ! i ! j)) / ?D"
    by (simp add: divide_inverse sum_list_mult_const)
  also have "\<dots> = 1" using D by simp
  finally show ?thesis .
qed

lemma shape3_lmatmul:
  assumes "length V = n" "length S = B"
  shows "shape3 B n p (lmatmul V S p)"
  using assms by (simp add: shape3_def lmatmul_def mm_def list_all_iff)

lemma shape3_softmax_dim1:
  assumes "shape3 B n p S"
  shows "shape3 B n p (softmax_dim1 S)"
proof -
  have "length m = n \<and> (\<forall>r \<in> set m. length r = p)" if "m \<in> set S" for m
    using assms that by (auto simp: shape3_def list_all_iff)
  then show ?thesis
    using assms by (auto simp: shape3_def softmax_dim1_def list_all_iff)
qed

lemma softmax_dim1_shape3_column:
  assumes S: "shape3 B n p S" and b: "b < B" and j: "j < p" and n: "0 < n"
  shows "column_sum (softmax_dim1 S) b j = 1"
proof -
  have l: "length S = B" and lb: "length (S ! b) = n"
    using shape3_D(1,2)[OF S] b by simp_all
  have "S ! b \<in> set S" using b l by simp
  then have rows: "\<forall>r \<in> set (S ! b). length r = p"
    using S by (auto simp: shape3_def list_all_iff)
  show ?thesis
    using softmax_dim1_column[of b S p j] b l lb rows j n by simp
qed

lemma length_spatial_scores:
  "length (add_broadcast (bmm (matmul (matvec_last X w1) w2 T) (permute021 T (vecmat_inner w3 X T)) N) bb)
     = length X"
  by (simp add: add_broadcast_def bmm_def matmul_def matvec_last_def permute021_def vecmat_inner_def)

lemma length_temporal_scores:
  "length (add_broadcast (bmm (matmul (matvec_last (permute0321 T F X) u1) u2 N) (vecmat_inner u3 X T) T) bb)
     = length X"
  by (simp add: add_broadcast_def bmm_def matmul_def matvec_last_def permute0321_def vecmat_inner_def)

text \<open>
  C5. For every batch element \<open>b\<close> and every fixed last index \<open>j\<close>, the entries
  \<open>S[b, i, j]\<close> of the spatial attention matrix sum to 1 over \<open>i\<close>, and so do the entries
  \<open>E[b, i, j]\<close> of the temporal attention matrix: both end in a softmax over axis 1.
\<close>

theorem attention_softmax_axis1:
  assumes X: "shape4 B N F T X" and P: "spatial_ok P N F T" and Q: "temporal_ok Q N F T"
    and b: "b < B"
  shows "shape3 B N N (SpatialAttention_forward P X) \<and>
         (\<forall>j < N. column_sum (SpatialAttention_forward P X) b j = 1) \<and>
         shape3 B T T (TemporalAttention_forward Q X) \<and>
         (\<forall>j < T. column_sum (TemporalAttention_forward Q X) b j = 1)"
proof -
  have lX: "length X = B" using X by (simp add: shape4_def)
  have lV: "length (Vs P) = N" "length (W1 P) = T" using P by (simp_all add: spatial_ok_def)
  have lE: "length (Ve Q) = T" "length (U1 Q) = N" "length (U3 Q) = F"
    using Q by (simp_all add: temporal_ok_def)
  let ?S = "lmatmul (Vs P) (map (map (map sigmoid))
      (add_broadcast (bmm (matmul (matvec_last X (W1 P)) (W2 P) T)
         (permute021 T (vecmat_inner (W3 P) X T)) N) (bs P))) N"
  let ?E = "lmatmul (Ve Q) (map (map (map sigmoid))
      (add_broadcast (bmm (matmul (matvec_last (permute0321 T F X) (U1 Q)) (U2 Q) N)
         (vecmat_inner (U3 Q) X T) T) (be Q))) T"
  have S: "shape3 B N N ?S"
    by (rule shape3_lmatmul) (simp_all add: lV length_spatial_scores lX)
  have E: "shape3 B T T ?E"
    by (rule shape3_lmatmul) (simp_all add: lE length_temporal_scores lX)
  have fS: "SpatialAttention_forward P X = softmax_dim1 ?S"
    by (simp add: SpatialAttention_forward_def Let_def lV)
  have fE: "TemporalAttention_forward Q X = softmax_dim1 ?E"
    by (simp add: TemporalAttention_forward_def Let_def lE)
  have "column_sum (softmax_dim1 ?S) b j = 1" if "j < N" for j
    using softmax_dim1_shape3_column[OF S b that] that by simp
  moreover have "column_sum (softmax_dim1 ?E) b j = 1" if "j < T" for j
    using softmax_dim1_shape3_column[OF E b that] that by simp
  ultimately show ?thesis
    unfolding fS fE using shape3_softmax_dim1[OF S] shape3_softmax_dim1[OF E] by blast
qed

lemma example_shapes:
  "shape4 1 2 1 2 X_example" "spatial_ok spatial_example 2 1 2" "temporal_ok temporal_example 2 1 2"
  by (simp_all add: shape4_def shape3_def spatial_ok_def temporal_ok_def X_example_def
      spatial_example_def temporal_example_def)

theorem attention_softmax_axis1_witness:
  "shape4 1 2 1 2 X_example \<and> spatial_ok spatial_example 2 1 2 \<and>
   temporal_ok temporal_example 2 1 2 \<and> (0::nat) < 1 \<and>
   column_sum (SpatialAttention_forward spatial_example X_example) 0 1 = 1 \<and>
   column_sum (TemporalAttention_forward temporal_example X_example) 0 0 = 1"
  using attention_softmax_axis1[OF example_shapes, of 0] example_shapes by simp

end
